theory Spec2Isabelle
  imports Complex_Main
begin

section \<open>Data model of the replication analysis (go/vt/vtorc/inst/analysis_dao.go)\<close>

text \<open>
  The tablet types of the topology protocol (\<^verbatim>\<open>topodatapb.TabletType\<close>; this file names
  \<open>UNKNOWN\<close> and \<open>PRIMARY\<close> and leaves the others to \<^verbatim>\<open>topo.IsReplicaType\<close>), the keyspace
  types (this file names \<open>SNAPSHOT\<close>), and the part of a decoded tablet record that the
  analysis reads: its alias and its type.
\<close>

datatype TabletType =
  UNKNOWN | PRIMARY | REPLICA | RDONLY | SPARE | EXPERIMENTAL | BACKUP | RESTORE | DRAINED

datatype KeyspaceType = NORMAL | SNAPSHOT

record TabletAlias =
  Cell :: string
  Uid :: nat

record Tablet =
  Alias :: "TabletAlias option"
  Type :: TabletType

text \<open>
  A serialized tablet payload of a snapshot row, after \<^verbatim>\<open>prototext.Unmarshal\<close>: the empty
  text, a text that does not decode, or a text that decodes to a tablet.
\<close>

datatype payload = EmptyText | Malformed | Decoded Tablet

definition zeroTablet :: Tablet where
  "zeroTablet = \<lparr>Alias = None, Type = UNKNOWN\<rparr>"

text \<open>\<^verbatim>\<open>opts.Unmarshal([]byte(m.GetString("tablet_info")), tablet)\<close>: the empty text decodes
  to the zero tablet, an undecodable text is the error.\<close>

definition unmarshalTablet :: "payload \<Rightarrow> Tablet option" where
  "unmarshalTablet p = (case p of EmptyText \<Rightarrow> Some zeroTablet | Malformed \<Rightarrow> None | Decoded t \<Rightarrow> Some t)"

text \<open>The analysis codes and the structure warnings that this file assigns.\<close>

datatype AnalysisCode =
    NoProblem | ClusterHasNoPrimary | PrimaryTabletDeleted | InvalidPrimary | InvalidReplica
  | PrimaryDiskStalled | DeadPrimaryWithoutReplicas | DeadPrimary | DeadPrimaryAndReplicas
  | DeadPrimaryAndSomeReplicas | PrimaryHasPrimary | PrimaryIsReadOnly | PrimarySemiSyncMustBeSet
  | PrimarySemiSyncMustNotBeSet | PrimaryCurrentTypeMismatch | ErrantGTIDDetected
  | PrimarySemiSyncBlocked | ReplicaIsWritable | NotConnectedToPrimary | ReplicaMisconfigured
  | ConnectedToWrongPrimary | ReplicationStopped | ReplicaSemiSyncMustBeSet
  | ReplicaSemiSyncMustNotBeSet | UnreachablePrimaryWithLaggingReplicas | UnreachablePrimary
  | LockedSemiSyncPrimary | LockedSemiSyncPrimaryHypothesis | PrimarySingleReplicaNotReplicating
  | PrimarySingleReplicaDead | AllPrimaryReplicasNotReplicating
  | AllPrimaryReplicasNotReplicatingOrDead

datatype StructureAnalysisCode =
    NoLoggingReplicasStructureWarning | NoFailoverSupportStructureWarning
  | StatementAndMixedLoggingReplicasStructureWarning
  | StatementAndRowLoggingReplicasStructureWarning | MixedAndRowLoggingReplicasStructureWarning
  | MultipleMajorVersionsLoggingReplicasStructureWarning | DifferentGTIDModesStructureWarning
  | ErrantGTIDStructureWarning | NoWriteablePrimaryStructureWarning
  | NotEnoughValidSemiSyncReplicasStructureWarning

text \<open>A timestamp column: \<open>None\<close> is Go's zero time, for which \<^verbatim>\<open>IsZero()\<close> holds.\<close>

type_synonym timestamp = "int option"

definition IsZero :: "timestamp \<Rightarrow> bool" where
  "IsZero t = (t = None)"

datatype BinlogType = BinaryLog | RelayLog

record BinlogCoordinates =
  LogFile :: string
  LogPos :: nat
  BinlogType :: BinlogType

text \<open>
  One row of the snapshot query, each column at the type its getter reads it
  (\<^verbatim>\<open>GetBool\<close>, \<^verbatim>\<open>GetUint\<close>, \<^verbatim>\<open>GetInt32\<close>, \<^verbatim>\<open>GetFloat64\<close>, \<^verbatim>\<open>GetString\<close>, \<^verbatim>\<open>GetTime\<close>).
  The heartbeat interval is a finite float64; its doubling and the comparison with an
  int32 are exact on finite values, so the column is a real number here.
\<close>

record Row =
  tablet_info :: payload
  primary_tablet_info :: payload
  current_tablet_type :: TabletType
  keyspace :: string
  shard :: string
  primary_timestamp :: timestamp
  keyspace_type :: KeyspaceType
  durability_policy :: string
  shard_primary_term_timestamp :: timestamp
  is_primary :: bool
  binary_log_file :: string
  binary_log_pos :: nat
  is_stale_binlog_coordinates :: bool
  gtid_mode :: string
  is_last_check_valid :: bool
  last_check_partial_success :: bool
  count_replicas :: nat
  count_valid_replicas :: nat
  count_valid_replicating_replicas :: nat
  replication_stopped :: bool
  gtid_errant :: string
  count_valid_oracle_gtid_replicas :: nat
  count_valid_binlog_server_replicas :: nat
  semi_sync_primary_enabled :: bool
  semi_sync_primary_status :: bool
  semi_sync_blocked :: bool
  semi_sync_replica_enabled :: bool
  count_semi_sync_replicas :: nat
  semi_sync_primary_wait_for_replica_count :: nat
  semi_sync_primary_clients :: nat
  min_replica_gtid_mode :: string
  max_replica_gtid_mode :: string
  max_replica_gtid_errant :: string
  count_logging_replicas :: nat
  count_statement_based_logging_replicas :: nat
  count_mixed_based_logging_replicas :: nat
  count_row_based_logging_replicas :: nat
  count_distinct_logging_major_versions :: nat
  count_delayed_replicas :: nat
  count_lagging_replicas :: nat
  replica_net_timeout :: int
  heartbeat_interval :: real
  read_only :: nat
  is_disk_stalled :: bool
  is_invalid :: bool

text \<open>
  \<^verbatim>\<open>ReplicationAnalysis\<close>, with the fields this file writes. The field
  \<^verbatim>\<open>ReplicationStopped\<close> is \<open>ReplicationStopped_field\<close> here: the analysis code of the
  same name keeps the name.
\<close>

record ReplicationAnalysis =
  AnalyzedInstanceAlias :: string
  AnalyzedInstancePrimaryAlias :: string
  TabletType :: TabletType
  CurrentTabletType :: TabletType
  PrimaryTimeStamp :: timestamp
  AnalyzedKeyspace :: string
  AnalyzedShard :: string
  ShardPrimaryTermTimestamp :: timestamp
  AnalyzedInstanceBinlogCoordinates :: BinlogCoordinates
  IsPrimary :: bool
  IsClusterPrimary :: bool
  LastCheckValid :: bool
  LastCheckPartialSuccess :: bool
  CountReplicas :: nat
  CountValidReplicas :: nat
  CountValidReplicatingReplicas :: nat
  ReplicationStopped_field :: bool
  ErrantGTID :: string
  ReplicaNetTimeout :: int
  HeartbeatInterval :: real
  Analysis :: AnalysisCode
  Description :: string
  StructureAnalysis :: "StructureAnalysisCode list"
  OracleGTIDImmediateTopology :: bool
  BinlogServerImmediateTopology :: bool
  SemiSyncPrimaryEnabled :: bool
  SemiSyncPrimaryStatus :: bool
  SemiSyncPrimaryWaitForReplicaCount :: nat
  SemiSyncPrimaryClients :: nat
  SemiSyncReplicaEnabled :: bool
  SemiSyncBlocked :: bool
  CountSemiSyncReplicasEnabled :: nat
  CountLoggingReplicas :: nat
  CountStatementBasedLoggingReplicas :: nat
  CountMixedBasedLoggingReplicas :: nat
  CountRowBasedLoggingReplicas :: nat
  CountDistinctMajorVersionsLoggingReplicas :: nat
  CountDelayedReplicas :: nat
  CountLaggingReplicas :: nat
  IsReadOnly :: bool
  IsDiskStalled :: bool
  GTIDMode :: string
  MinReplicaGTIDMode :: string
  MaxReplicaGTIDMode :: string
  MaxReplicaGTIDErrant :: string

text \<open>\<^verbatim>\<open>clusterAnalysis\<close>: the aggregate of one shard during a pass. A nil durability is \<open>None\<close>.\<close>

record 'd clusterAnalysis =
  hasShardWideAction :: bool
  totalTablets :: int
  primaryAlias :: string
  durability :: "'d option"

text \<open>
  The functions of other packages that the analysis calls, taken as parameters:
  \<^verbatim>\<open>topo.IsReplicaType\<close>, \<^verbatim>\<open>getKeyspaceShardName\<close>, \<^verbatim>\<open>topoproto.TabletAliasString\<close>, and the
  durability policies (\<^verbatim>\<open>policy.GetDurabilityPolicy\<close>, whose error is \<open>None\<close>,
  \<^verbatim>\<open>policy.SemiSyncAckers\<close> and \<^verbatim>\<open>policy.IsReplicaSemiSync\<close>) over a type \<open>'d\<close> of policies.
\<close>

record 'd Collaborators =
  IsReplicaType :: "TabletType \<Rightarrow> bool"
  getKeyspaceShardName :: "string \<Rightarrow> string \<Rightarrow> string"
  TabletAliasString :: "TabletAlias option \<Rightarrow> string"
  GetDurabilityPolicy :: "string \<Rightarrow> 'd option"
  SemiSyncAckers :: "'d \<Rightarrow> Tablet \<Rightarrow> int"
  IsReplicaSemiSync :: "'d \<Rightarrow> Tablet \<Rightarrow> Tablet \<Rightarrow> bool"

text \<open>\<^verbatim>\<open>math.Round\<close>: the nearest integer, halves away from zero.\<close>

definition math_Round :: "real \<Rightarrow> real" where
  "math_Round x = (if x < 0 then - of_int \<lfloor>- x + 1 / 2\<rfloor> else of_int \<lfloor>x + 1 / 2\<rfloor>)"

section \<open>The pass over the snapshot rows: \<^verbatim>\<open>GetReplicationAnalysis\<close>\<close>

text \<open>\<^verbatim>\<open>a := &ReplicationAnalysis{Analysis: NoProblem}\<close>: every other field at its zero value.\<close>

definition emptyAnalysis :: ReplicationAnalysis where
  "emptyAnalysis = \<lparr>
     AnalyzedInstanceAlias = [], AnalyzedInstancePrimaryAlias = [],
     TabletType = UNKNOWN, CurrentTabletType = UNKNOWN, PrimaryTimeStamp = None,
     AnalyzedKeyspace = [], AnalyzedShard = [], ShardPrimaryTermTimestamp = None,
     AnalyzedInstanceBinlogCoordinates = \<lparr>LogFile = [], LogPos = 0, BinlogType = BinaryLog\<rparr>,
     IsPrimary = False, IsClusterPrimary = False, LastCheckValid = False,
     LastCheckPartialSuccess = False, CountReplicas = 0, CountValidReplicas = 0,
     CountValidReplicatingReplicas = 0, ReplicationStopped_field = False, ErrantGTID = [],
     ReplicaNetTimeout = 0, HeartbeatInterval = 0, Analysis = NoProblem, Description = [],
     StructureAnalysis = [], OracleGTIDImmediateTopology = False,
     BinlogServerImmediateTopology = False, SemiSyncPrimaryEnabled = False,
     SemiSyncPrimaryStatus = False, SemiSyncPrimaryWaitForReplicaCount = 0,
     SemiSyncPrimaryClients = 0, SemiSyncReplicaEnabled = False, SemiSyncBlocked = False,
     CountSemiSyncReplicasEnabled = 0, CountLoggingReplicas = 0,
     CountStatementBasedLoggingReplicas = 0, CountMixedBasedLoggingReplicas = 0,
     CountRowBasedLoggingReplicas = 0, CountDistinctMajorVersionsLoggingReplicas = 0,
     CountDelayedReplicas = 0, CountLaggingReplicas = 0, IsReadOnly = False,
     IsDiskStalled = False, GTIDMode = [], MinReplicaGTIDMode = [], MaxReplicaGTIDMode = [],
     MaxReplicaGTIDErrant = []\<rparr>"

text \<open>The fields written before the snapshot-keyspace test (lines 305 to 309).\<close>

definition readIdentity :: "Row \<Rightarrow> Tablet \<Rightarrow> ReplicationAnalysis \<Rightarrow> ReplicationAnalysis" where
  "readIdentity m tablet a = a\<lparr>
     TabletType := Type tablet,
     CurrentTabletType := current_tablet_type m,
     AnalyzedKeyspace := keyspace m,
     AnalyzedShard := shard m,
     PrimaryTimeStamp := primary_timestamp m\<rparr>"

text \<open>The fields written after it (lines 316 to 364).\<close>

definition readState ::
  "'d Collaborators \<Rightarrow> Row \<Rightarrow> Tablet \<Rightarrow> Tablet \<Rightarrow> ReplicationAnalysis \<Rightarrow> ReplicationAnalysis" where
  "readState env m tablet primaryTablet a = a\<lparr>
     ShardPrimaryTermTimestamp := shard_primary_term_timestamp m,
     IsPrimary := is_primary m,
     AnalyzedInstanceAlias := TabletAliasString env (Alias tablet),
     AnalyzedInstancePrimaryAlias := TabletAliasString env (Alias primaryTablet),
     AnalyzedInstanceBinlogCoordinates :=
       \<lparr>LogFile = binary_log_file m, LogPos = binary_log_pos m, BinlogType = BinaryLog\<rparr>,
     GTIDMode := gtid_mode m,
     LastCheckValid := is_last_check_valid m,
     LastCheckPartialSuccess := last_check_partial_success m,
     CountReplicas := count_replicas m,
     CountValidReplicas := count_valid_replicas m,
     CountValidReplicatingReplicas := count_valid_replicating_replicas m,
     ReplicationStopped_field := replication_stopped m,
     ErrantGTID := gtid_errant m,
     OracleGTIDImmediateTopology :=
       (count_valid_oracle_gtid_replicas m = count_valid_replicas m \<and> count_valid_replicas m > 0),
     BinlogServerImmediateTopology :=
       (count_valid_binlog_server_replicas m = count_valid_replicas m \<and> count_valid_replicas m > 0),
     SemiSyncPrimaryEnabled := semi_sync_primary_enabled m,
     SemiSyncPrimaryStatus := semi_sync_primary_status m,
     SemiSyncBlocked := semi_sync_blocked m,
     SemiSyncReplicaEnabled := semi_sync_replica_enabled m,
     CountSemiSyncReplicasEnabled := count_semi_sync_replicas m,
     SemiSyncPrimaryWaitForReplicaCount := semi_sync_primary_wait_for_replica_count m,
     SemiSyncPrimaryClients := semi_sync_primary_clients m,
     MinReplicaGTIDMode := min_replica_gtid_mode m,
     MaxReplicaGTIDMode := max_replica_gtid_mode m,
     MaxReplicaGTIDErrant := max_replica_gtid_errant m,
     CountLoggingReplicas := count_logging_replicas m,
     CountStatementBasedLoggingReplicas := count_statement_based_logging_replicas m,
     CountMixedBasedLoggingReplicas := count_mixed_based_logging_replicas m,
     CountRowBasedLoggingReplicas := count_row_based_logging_replicas m,
     CountDistinctMajorVersionsLoggingReplicas := count_distinct_logging_major_versions m,
     CountDelayedReplicas := count_delayed_replicas m,
     CountLaggingReplicas := count_lagging_replicas m,
     ReplicaNetTimeout := replica_net_timeout m,
     HeartbeatInterval := heartbeat_interval m,
     IsReadOnly := (read_only m = 1),
     IsDiskStalled := is_disk_stalled m\<rparr>"

text \<open>
  The chain of lines 405 to 539, first match wins. \<open>d\<close> is the shard's durability policy,
  \<open>pa\<close> the shard's \<^verbatim>\<open>primaryAlias\<close>. A branch gives the code and the description it
  writes and whether it sets \<^verbatim>\<open>ca.hasShardWideAction\<close>; \<open>None\<close> when no branch matches.
\<close>

definition analysisChain ::
  "'d Collaborators \<Rightarrow> 'd \<Rightarrow> string \<Rightarrow> Tablet \<Rightarrow> Tablet \<Rightarrow> bool \<Rightarrow> bool \<Rightarrow> ReplicationAnalysis
     \<Rightarrow> (AnalysisCode \<times> string \<times> bool) option" where
  "analysisChain env d pa tablet primaryTablet isInvalid isStaleBinlogCoordinates a =
    (if IsClusterPrimary a \<and> isInvalid then
       Some (InvalidPrimary, ''VTOrc hasn't been able to reach the primary even once since restart/shutdown'', False)
     else if isInvalid then
       Some (InvalidReplica, ''VTOrc hasn't been able to reach the replica even once since restart/shutdown'', False)
     else if IsClusterPrimary a \<and> \<not> LastCheckValid a \<and> IsDiskStalled a then
       Some (PrimaryDiskStalled, ''Primary has a stalled disk'', True)
     else if IsClusterPrimary a \<and> \<not> LastCheckValid a \<and> CountReplicas a = 0 then
       Some (DeadPrimaryWithoutReplicas, ''Primary cannot be reached by vtorc and has no replica'', True)
     else if IsClusterPrimary a \<and> \<not> LastCheckValid a \<and> CountValidReplicas a = CountReplicas a
               \<and> CountValidReplicatingReplicas a = 0 then
       Some (DeadPrimary, ''Primary cannot be reached by vtorc and none of its replicas is replicating'', True)
     else if IsClusterPrimary a \<and> \<not> LastCheckValid a \<and> CountReplicas a > 0
               \<and> CountValidReplicas a = 0 \<and> CountValidReplicatingReplicas a = 0 then
       Some (DeadPrimaryAndReplicas, ''Primary cannot be reached by vtorc and none of its replicas is replicating'', True)
     else if IsClusterPrimary a \<and> \<not> LastCheckValid a \<and> CountValidReplicas a < CountReplicas a
               \<and> CountValidReplicas a > 0 \<and> CountValidReplicatingReplicas a = 0 then
       Some (DeadPrimaryAndSomeReplicas, ''Primary cannot be reached by vtorc; some of its replicas are unreachable and none of its reachable replicas is replicating'', True)
     else if IsClusterPrimary a \<and> \<not> IsPrimary a then
       Some (PrimaryHasPrimary, ''Primary is replicating from somewhere else'', True)
     else if IsClusterPrimary a \<and> IsReadOnly a then
       Some (PrimaryIsReadOnly, ''Primary is read-only'', False)
     else if IsClusterPrimary a \<and> SemiSyncAckers env d tablet \<noteq> 0 \<and> \<not> SemiSyncPrimaryEnabled a then
       Some (PrimarySemiSyncMustBeSet, ''Primary semi-sync must be set'', False)
     else if IsClusterPrimary a \<and> SemiSyncAckers env d tablet = 0 \<and> SemiSyncPrimaryEnabled a then
       Some (PrimarySemiSyncMustNotBeSet, ''Primary semi-sync must not be set'', False)
     else if IsClusterPrimary a \<and> CurrentTabletType a \<noteq> UNKNOWN \<and> CurrentTabletType a \<noteq> PRIMARY then
       Some (PrimaryCurrentTypeMismatch, ''Primary tablet's current type is not PRIMARY'', False)
     else if IsReplicaType env (TabletType a) \<and> ErrantGTID a \<noteq> [] then
       Some (ErrantGTIDDetected, ''Tablet has errant GTIDs'', False)
     else if IsReplicaType env (TabletType a) \<and> pa = [] \<and> IsZero (ShardPrimaryTermTimestamp a) then
       Some (ClusterHasNoPrimary, ''Cluster has no primary'', True)
     else if IsReplicaType env (TabletType a) \<and> pa = [] \<and> \<not> IsZero (ShardPrimaryTermTimestamp a) then
       Some (PrimaryTabletDeleted, ''Primary tablet has been deleted'', True)
     else if IsPrimary a \<and> SemiSyncBlocked a
               \<and> CountSemiSyncReplicasEnabled a \<ge> SemiSyncPrimaryWaitForReplicaCount a then
       Some (PrimarySemiSyncBlocked, ''Writes seem to be blocked on semi-sync acks on the primary, even though sufficient replicas are configured to send ACKs'', True)
     else if IsReplicaType env (TabletType a) \<and> \<not> IsReadOnly a then
       Some (ReplicaIsWritable, ''Replica is writable'', False)
     else if IsReplicaType env (TabletType a) \<and> IsPrimary a then
       Some (NotConnectedToPrimary, ''Not connected to the primary'', False)
     else if IsReplicaType env (TabletType a) \<and> \<not> IsPrimary a
               \<and> math_Round (HeartbeatInterval a * 2) \<noteq> of_int (ReplicaNetTimeout a) then
       Some (ReplicaMisconfigured, ''Replica has been misconfigured'', False)
     else if IsReplicaType env (TabletType a) \<and> \<not> IsPrimary a \<and> pa \<noteq> []
               \<and> AnalyzedInstancePrimaryAlias a \<noteq> pa then
       Some (ConnectedToWrongPrimary, ''Connected to wrong primary'', False)
     else if IsReplicaType env (TabletType a) \<and> \<not> IsPrimary a \<and> ReplicationStopped_field a then
       Some (ReplicationStopped, ''Replication is stopped'', False)
     else if IsReplicaType env (TabletType a) \<and> \<not> IsPrimary a
               \<and> IsReplicaSemiSync env d primaryTablet tablet \<and> \<not> SemiSyncReplicaEnabled a then
       Some (ReplicaSemiSyncMustBeSet, ''Replica semi-sync must be set'', False)
     else if IsReplicaType env (TabletType a) \<and> \<not> IsPrimary a
               \<and> \<not> IsReplicaSemiSync env d primaryTablet tablet \<and> SemiSyncReplicaEnabled a then
       Some (ReplicaSemiSyncMustNotBeSet, ''Replica semi-sync must not be set'', False)
     else if IsPrimary a \<and> \<not> LastCheckValid a \<and> CountLaggingReplicas a = CountReplicas a
               \<and> CountDelayedReplicas a < CountReplicas a \<and> CountValidReplicatingReplicas a > 0 then
       Some (UnreachablePrimaryWithLaggingReplicas, ''Primary cannot be reached by vtorc and all of its replicas are lagging'', False)
     else if IsPrimary a \<and> \<not> LastCheckValid a \<and> \<not> LastCheckPartialSuccess a
               \<and> CountValidReplicas a > 0 \<and> CountValidReplicatingReplicas a > 0 then
       Some (UnreachablePrimary, ''Primary cannot be reached by vtorc but it has replicating replicas; possibly a network/host issue'', False)
     else if IsPrimary a \<and> SemiSyncPrimaryEnabled a \<and> SemiSyncPrimaryStatus a
               \<and> SemiSyncPrimaryWaitForReplicaCount a > 0
               \<and> SemiSyncPrimaryClients a < SemiSyncPrimaryWaitForReplicaCount a then
       (if isStaleBinlogCoordinates then
          Some (LockedSemiSyncPrimary, ''Semi sync primary is locked since it doesn't get enough replica acknowledgements'', False)
        else
          Some (LockedSemiSyncPrimaryHypothesis, ''Semi sync primary seems to be locked, more samplings needed to validate'', False))
     else if IsPrimary a \<and> LastCheckValid a \<and> CountReplicas a = 1
               \<and> CountValidReplicas a = CountReplicas a \<and> CountValidReplicatingReplicas a = 0 then
       Some (PrimarySingleReplicaNotReplicating, ''Primary is reachable but its single replica is not replicating'', False)
     else if IsPrimary a \<and> LastCheckValid a \<and> CountReplicas a = 1 \<and> CountValidReplicas a = 0 then
       Some (PrimarySingleReplicaDead, ''Primary is reachable but its single replica is dead'', False)
     else if IsPrimary a \<and> LastCheckValid a \<and> CountReplicas a > 1
               \<and> CountValidReplicas a = CountReplicas a \<and> CountValidReplicatingReplicas a = 0 then
       Some (AllPrimaryReplicasNotReplicating, ''Primary is reachable but none of its replicas is replicating'', False)
     else if IsPrimary a \<and> LastCheckValid a \<and> CountReplicas a > 1
               \<and> CountValidReplicas a < CountReplicas a \<and> CountValidReplicas a > 0
               \<and> CountValidReplicatingReplicas a = 0 then
       Some (AllPrimaryReplicasNotReplicatingOrDead, ''Primary is reachable but none of its replicas is replicating'', False)
     else None)"

text \<open>
  The chain applied to the analysis record: the matching branch writes \<^verbatim>\<open>a.Analysis\<close> and
  \<^verbatim>\<open>a.Description\<close>; the second component is whether it sets \<^verbatim>\<open>ca.hasShardWideAction\<close>.
\<close>

definition classify ::
  "'d Collaborators \<Rightarrow> 'd \<Rightarrow> string \<Rightarrow> Tablet \<Rightarrow> Tablet \<Rightarrow> bool \<Rightarrow> bool \<Rightarrow> ReplicationAnalysis
     \<Rightarrow> ReplicationAnalysis \<times> bool" where
  "classify env d pa tablet primaryTablet isInvalid isStaleBinlogCoordinates a =
    (case analysisChain env d pa tablet primaryTablet isInvalid isStaleBinlogCoordinates a of
       None \<Rightarrow> (a, False)
     | Some (code, descr, shardWide) \<Rightarrow> (a\<lparr>Analysis := code, Description := descr\<rparr>, shardWide))"

text \<open>The structure analysis of lines 545 to 583: every warning that applies, in this order.\<close>

definition structureAnalysis :: "ReplicationAnalysis \<Rightarrow> ReplicationAnalysis" where
  "structureAnalysis a = a\<lparr>StructureAnalysis := StructureAnalysis a
     @ (if IsPrimary a \<and> CountLoggingReplicas a = 0 \<and> CountReplicas a > 1
        then [NoLoggingReplicasStructureWarning] else [])
     @ (if IsPrimary a \<and> CountReplicas a > 1 \<and> \<not> OracleGTIDImmediateTopology a
           \<and> \<not> BinlogServerImmediateTopology a
        then [NoFailoverSupportStructureWarning] else [])
     @ (if IsPrimary a \<and> CountStatementBasedLoggingReplicas a > 0 \<and> CountMixedBasedLoggingReplicas a > 0
        then [StatementAndMixedLoggingReplicasStructureWarning] else [])
     @ (if IsPrimary a \<and> CountStatementBasedLoggingReplicas a > 0 \<and> CountRowBasedLoggingReplicas a > 0
        then [StatementAndRowLoggingReplicasStructureWarning] else [])
     @ (if IsPrimary a \<and> CountMixedBasedLoggingReplicas a > 0 \<and> CountRowBasedLoggingReplicas a > 0
        then [MixedAndRowLoggingReplicasStructureWarning] else [])
     @ (if IsPrimary a \<and> CountDistinctMajorVersionsLoggingReplicas a > 1
        then [MultipleMajorVersionsLoggingReplicasStructureWarning] else [])
     @ (if CountReplicas a > 0 \<and> (GTIDMode a \<noteq> MinReplicaGTIDMode a \<or> GTIDMode a \<noteq> MaxReplicaGTIDMode a)
        then [DifferentGTIDModesStructureWarning] else [])
     @ (if MaxReplicaGTIDErrant a \<noteq> [] then [ErrantGTIDStructureWarning] else [])
     @ (if IsPrimary a \<and> IsReadOnly a then [NoWriteablePrimaryStructureWarning] else [])
     @ (if IsPrimary a \<and> SemiSyncPrimaryEnabled a \<and> \<not> SemiSyncPrimaryStatus a
           \<and> SemiSyncPrimaryWaitForReplicaCount a > 0
           \<and> SemiSyncPrimaryClients a < SemiSyncPrimaryWaitForReplicaCount a
        then [NotEnoughValidSemiSyncReplicasStructureWarning] else [])\<rparr>"

text \<open>
  What the callback did with a row: it returned early (with the reason, and the analysis
  record as it stood, which is then dropped), or it went through the chain and the
  structure checks and handed the record to \<^verbatim>\<open>appendAnalysis\<close>.
\<close>

datatype skipReason =
    MalformedTabletInfo | NotPrimaryOrReplicaType | MalformedPrimaryTabletInfo
  | SnapshotKeyspace | NoDurabilityPolicy | DurabilityPolicyError
  | ShardWideActionTaken | DurabilityNotLoaded

datatype rowOutcome = Skipped skipReason ReplicationAnalysis | Classified ReplicationAnalysis

text \<open>
  Lines 393 to 584, for the shard aggregate \<open>ca\<close> found or created under the key \<open>k\<close>: count
  the tablet, return when a shard-wide action is taken or the durability is nil, else
  classify. The aggregate is a shared object, so every change of it is a change of the map.
\<close>

definition analyse ::
  "'d Collaborators \<Rightarrow> (string \<rightharpoonup> 'd clusterAnalysis) \<Rightarrow> string \<Rightarrow> 'd clusterAnalysis \<Rightarrow> Row
     \<Rightarrow> Tablet \<Rightarrow> Tablet \<Rightarrow> ReplicationAnalysis
     \<Rightarrow> (string \<rightharpoonup> 'd clusterAnalysis) \<times> rowOutcome" where
  "analyse env clusters k ca m tablet primaryTablet a =
    (let ca1 = ca\<lparr>totalTablets := totalTablets ca + 1\<rparr> in
     if hasShardWideAction ca1 then (clusters(k \<mapsto> ca1), Skipped ShardWideActionTaken a)
     else case durability ca1 of
       None \<Rightarrow> (clusters(k \<mapsto> ca1), Skipped DurabilityNotLoaded a)
     | Some d \<Rightarrow>
         (let (a1, shardWide) =
                classify env d (primaryAlias ca1) tablet primaryTablet (is_invalid m)
                  (is_stale_binlog_coordinates m) a
          in (clusters(k \<mapsto> (if shardWide then ca1\<lparr>hasShardWideAction := True\<rparr> else ca1)),
              Classified (structureAnalysis a1))))"

text \<open>
  Lines 374 to 392: the aggregate of the row's shard, created at the first row of the shard
  that reaches this point. Only there is the row marked as the cluster primary and the
  durability policy resolved; a missing or unknown policy returns at once.
\<close>

definition aggregate ::
  "'d Collaborators \<Rightarrow> (string \<rightharpoonup> 'd clusterAnalysis) \<Rightarrow> Row \<Rightarrow> Tablet \<Rightarrow> Tablet
     \<Rightarrow> ReplicationAnalysis \<Rightarrow> (string \<rightharpoonup> 'd clusterAnalysis) \<times> rowOutcome" where
  "aggregate env clusters m tablet primaryTablet a =
    (let k = getKeyspaceShardName env (AnalyzedKeyspace a) (AnalyzedShard a) in
     case clusters k of
       Some ca \<Rightarrow> analyse env clusters k ca m tablet primaryTablet a
     | None \<Rightarrow>
         (let ca0 = \<lparr>hasShardWideAction = False, totalTablets = 0, primaryAlias = [], durability = None\<rparr>;
              a1 = (if TabletType a = PRIMARY then a\<lparr>IsClusterPrimary := True\<rparr> else a);
              ca1 = (if TabletType a = PRIMARY then ca0\<lparr>primaryAlias := AnalyzedInstanceAlias a\<rparr> else ca0)
          in if durability_policy m = [] then (clusters(k \<mapsto> ca1), Skipped NoDurabilityPolicy a1)
             else case GetDurabilityPolicy env (durability_policy m) of
               None \<Rightarrow> (clusters(k \<mapsto> ca1), Skipped DurabilityPolicyError a1)
             | Some d \<Rightarrow>
                 analyse env (clusters(k \<mapsto> ca1\<lparr>durability := Some d\<rparr>)) k
                   (ca1\<lparr>durability := Some d\<rparr>) m tablet primaryTablet a1))"

text \<open>
  The callback of the query, one row at a time (lines 280 to 593). The audit task it starts
  for a row with replicas runs on its own and is modelled below, apart from the pass.
\<close>

definition processRow ::
  "'d Collaborators \<Rightarrow> (string \<rightharpoonup> 'd clusterAnalysis) \<Rightarrow> Row
     \<Rightarrow> (string \<rightharpoonup> 'd clusterAnalysis) \<times> rowOutcome" where
  "processRow env clusters m =
    (case unmarshalTablet (tablet_info m) of
       None \<Rightarrow> (clusters, Skipped MalformedTabletInfo emptyAnalysis)
     | Some tablet \<Rightarrow>
         if Type tablet \<noteq> PRIMARY \<and> \<not> IsReplicaType env (Type tablet)
         then (clusters, Skipped NotPrimaryOrReplicaType emptyAnalysis)
         else case (if primary_tablet_info m = EmptyText then Some zeroTablet
                    else unmarshalTablet (primary_tablet_info m)) of
           None \<Rightarrow> (clusters, Skipped MalformedPrimaryTabletInfo emptyAnalysis)
         | Some primaryTablet \<Rightarrow>
             (let a = readIdentity m tablet emptyAnalysis in
              if keyspace_type m = SNAPSHOT then (clusters, Skipped SnapshotKeyspace a)
              else aggregate env clusters m tablet primaryTablet
                     (readState env m tablet primaryTablet a)))"

text \<open>\<^verbatim>\<open>appendAnalysis\<close>: no problem and no structure warning is not a result.\<close>

definition appendAnalysis :: "ReplicationAnalysis list \<Rightarrow> ReplicationAnalysis \<Rightarrow> ReplicationAnalysis list" where
  "appendAnalysis result analysis =
    (if Analysis analysis = NoProblem \<and> length (StructureAnalysis analysis) = 0 then result
     else result @ [analysis])"

text \<open>What the callback leaves in \<^verbatim>\<open>result\<close>: only a row that went through the chain is handed
  to \<^verbatim>\<open>appendAnalysis\<close>.\<close>

definition record_outcome :: "ReplicationAnalysis list \<Rightarrow> rowOutcome \<Rightarrow> ReplicationAnalysis list" where
  "record_outcome result out = (case out of Skipped _ _ \<Rightarrow> result | Classified a \<Rightarrow> appendAnalysis result a)"

text \<open>The scan: the callback on every row the store delivers, in order.\<close>

fun scanRows ::
  "'d Collaborators \<Rightarrow> (string \<rightharpoonup> 'd clusterAnalysis) \<Rightarrow> ReplicationAnalysis list \<Rightarrow> Row list
     \<Rightarrow> (string \<rightharpoonup> 'd clusterAnalysis) \<times> ReplicationAnalysis list" where
  "scanRows env clusters result [] = (clusters, result)"
| "scanRows env clusters result (m # ms) =
     (case processRow env clusters m of
        (clusters', out) \<Rightarrow> scanRows env clusters' (record_outcome result out) ms)"

text \<open>The outcome of every row of a scan, in order: what the callback did with each.\<close>

fun scanOutcomes ::
  "'d Collaborators \<Rightarrow> (string \<rightharpoonup> 'd clusterAnalysis) \<Rightarrow> Row list \<Rightarrow> rowOutcome list" where
  "scanOutcomes env clusters [] = []"
| "scanOutcomes env clusters (m # ms) =
     (case processRow env clusters m of
        (clusters', out) \<Rightarrow> out # scanOutcomes env clusters' ms)"

subsection \<open>Notions the properties of the pass are stated with\<close>

text \<open>The key of a row's shard in the map of aggregates.\<close>

definition rowKey :: "'d Collaborators \<Rightarrow> Row \<Rightarrow> string" where
  "rowKey env m = getKeyspaceShardName env (keyspace m) (shard m)"

text \<open>
  A row reaches the aggregation (line 374) when none of the early returns takes it: its
  tablet payload decodes, the tablet is a primary or of a replica type, its primary's
  payload is empty or decodes, and the keyspace is not a snapshot keyspace.
\<close>

definition aggregated :: "'d Collaborators \<Rightarrow> Row \<Rightarrow> bool" where
  "aggregated env m =
    (case unmarshalTablet (tablet_info m) of
       None \<Rightarrow> False
     | Some tablet \<Rightarrow>
         (Type tablet = PRIMARY \<or> IsReplicaType env (Type tablet))
         \<and> (primary_tablet_info m = EmptyText \<or> unmarshalTablet (primary_tablet_info m) \<noteq> None)
         \<and> keyspace_type m \<noteq> SNAPSHOT)"

text \<open>
  The durability policy of a row is missing or does not resolve: the conditions of the two
  returns of lines 382 to 390, taken at the row that creates the aggregate of its shard.
\<close>

definition policyUnresolved :: "'d Collaborators \<Rightarrow> Row \<Rightarrow> bool" where
  "policyUnresolved env m =
     (durability_policy m = [] \<or> GetDurabilityPolicy env (durability_policy m) = None)"

text \<open>The analysis record of a row as the callback left it.\<close>

fun outcomeAnalysis :: "rowOutcome \<Rightarrow> ReplicationAnalysis" where
  "outcomeAnalysis (Skipped r a) = a"
| "outcomeAnalysis (Classified a) = a"

fun isClassified :: "rowOutcome \<Rightarrow> bool" where
  "isClassified (Skipped r a) = False"
| "isClassified (Classified a) = True"

text \<open>The codes whose branch of the chain sets \<^verbatim>\<open>ca.hasShardWideAction\<close>.\<close>

definition isShardWide :: "AnalysisCode \<Rightarrow> bool" where
  "isShardWide code = (code \<in> {PrimaryDiskStalled, DeadPrimaryWithoutReplicas, DeadPrimary,
     DeadPrimaryAndReplicas, DeadPrimaryAndSomeReplicas, PrimaryHasPrimary, ClusterHasNoPrimary,
     PrimaryTabletDeleted, PrimarySemiSyncBlocked})"

text \<open>
  A branch of the chain agrees with \<open>isShardWide\<close> when it sets the flag exactly for those
  codes, and assigns a code other than \<open>NoProblem\<close>.
\<close>

definition flagAgrees :: "(AnalysisCode \<times> string \<times> bool) option \<Rightarrow> bool" where
  "flagAgrees r = (case r of None \<Rightarrow> True | Some (code, descr, f) \<Rightarrow> f = isShardWide code \<and> code \<noteq> NoProblem)"

text \<open>The shard of key \<open>k\<close> has its shard-wide action flag set.\<close>

definition flagged :: "(string \<rightharpoonup> 'd clusterAnalysis) \<Rightarrow> string \<Rightarrow> bool" where
  "flagged clusters k = (case clusters k of None \<Rightarrow> False | Some ca \<Rightarrow> hasShardWideAction ca)"

section \<open>The reconciliation of the results: \<^verbatim>\<open>postProcessAnalyses\<close>\<close>

text \<open>
  The function reads \<^verbatim>\<open>clusters[keyspaceShard].totalTablets\<close> through a pointer that is nil
  when the map has no aggregate for the key: that panic is the error value here.
\<close>

datatype panic = NilPointerDereference

text \<open>
  The inner loop (lines 619 to 628): the indexes, counted from \<open>idx\<close>, of the results of the
  keyspace and shard that are of a replica type and whose last check is invalid or whose
  replication is stopped.
\<close>

fun notReplicatingReplicas ::
  "'d Collaborators \<Rightarrow> string \<Rightarrow> string \<Rightarrow> nat \<Rightarrow> ReplicationAnalysis list \<Rightarrow> nat list" where
  "notReplicatingReplicas env keyspaceName shardName idx [] = []"
| "notReplicatingReplicas env keyspaceName shardName idx (replicaAnalysis # rest) =
     (if AnalyzedKeyspace replicaAnalysis = keyspaceName \<and> AnalyzedShard replicaAnalysis = shardName
         \<and> IsReplicaType env (TabletType replicaAnalysis)
      then (if \<not> LastCheckValid replicaAnalysis \<or> ReplicationStopped_field replicaAnalysis
            then idx # notReplicatingReplicas env keyspaceName shardName (Suc idx) rest
            else notReplicatingReplicas env keyspaceName shardName (Suc idx) rest)
      else notReplicatingReplicas env keyspaceName shardName (Suc idx) rest)"

text \<open>
  The removal loop (lines 634 to 637), given the indexes in the order it visits them:
  \<^verbatim>\<open>result = append(result[0:idxToRemove], result[idxToRemove+1:]...)\<close>.
\<close>

fun removeIndexes :: "nat list \<Rightarrow> 'a list \<Rightarrow> 'a list" where
  "removeIndexes [] result = result"
| "removeIndexes (idxToRemove # rest) result =
     removeIndexes rest (take idxToRemove result @ drop (Suc idxToRemove) result)"

text \<open>
  One round of the outer loop (lines 611 to 641) over the results from index \<open>i\<close> on: the
  first invalid primary whose shard has more than one tablet and as many not-replicating
  replica results as it has other tablets, with the indexes of those results; \<open>None\<close> when
  the round changes nothing.
\<close>

fun findDeadPrimary ::
  "'d Collaborators \<Rightarrow> (string \<rightharpoonup> 'd clusterAnalysis) \<Rightarrow> ReplicationAnalysis list \<Rightarrow> nat
     \<Rightarrow> ReplicationAnalysis list \<Rightarrow> panic + (nat \<times> nat list) option" where
  "findDeadPrimary env clusters result i [] = Inr None"
| "findDeadPrimary env clusters result i (analysis # rest) =
     (if Analysis analysis = InvalidPrimary then
        (case clusters (getKeyspaceShardName env (AnalyzedKeyspace analysis) (AnalyzedShard analysis)) of
           None \<Rightarrow> Inl NilPointerDereference
         | Some ca \<Rightarrow>
             (let totalReplicas = totalTablets ca - 1;
                  idxs = notReplicatingReplicas env (AnalyzedKeyspace analysis) (AnalyzedShard analysis) 0 result
              in if totalReplicas > 0 \<and> int (length idxs) = totalReplicas
                 then Inr (Some (i, idxs))
                 else findDeadPrimary env clusters result (Suc i) rest))
      else findDeadPrimary env clusters result (Suc i) rest)"

text \<open>The test of the inner loop on one result.\<close>

definition notReplicating :: "'d Collaborators \<Rightarrow> string \<Rightarrow> string \<Rightarrow> ReplicationAnalysis \<Rightarrow> bool" where
  "notReplicating env ks sh r =
     (AnalyzedKeyspace r = ks \<and> AnalyzedShard r = sh \<and> IsReplicaType env (TabletType r)
      \<and> (\<not> LastCheckValid r \<or> ReplicationStopped_field r))"

lemma length_notReplicatingReplicas:
  "length (notReplicatingReplicas env ks sh n xs) = length (filter (notReplicating env ks sh) xs)"
  by (induction xs arbitrary: n) (auto simp: notReplicating_def)

lemma removeIndexes_append:
  "removeIndexes (as @ bs) r = removeIndexes bs (removeIndexes as r)"
  by (induction as arbitrary: r) auto

text \<open>Removing, from the last index to the first, the indexes the inner loop collected over xs
  from a list ys of the same length keeps the entries of ys at the other positions.\<close>

lemma removeIndexes_notReplicating:
  "length ys = length xs \<Longrightarrow>
   removeIndexes (rev (notReplicatingReplicas env ks sh (length pre) xs)) (pre @ ys)
     = pre @ map snd (filter (\<lambda>(x, y). \<not> notReplicating env ks sh x) (zip xs ys))"
proof (induction xs arbitrary: ys pre)
  case Nil
  then show ?case by simp
next
  case (Cons x xs)
  then obtain y ys' where ys: "ys = y # ys'" "length ys' = length xs"
    by (cases ys) auto
  have IH: "removeIndexes (rev (notReplicatingReplicas env ks sh (Suc (length pre)) xs)) (pre @ y # ys')
     = (pre @ [y]) @ map snd (filter (\<lambda>(x, y). \<not> notReplicating env ks sh x) (zip xs ys'))"
    using Cons.IH[OF ys(2), of "pre @ [y]"] by simp
  show ?case
  proof (cases "notReplicating env ks sh x")
    case True
    then have "notReplicatingReplicas env ks sh (length pre) (x # xs)
        = length pre # notReplicatingReplicas env ks sh (Suc (length pre)) xs"
      by (auto simp: notReplicating_def)
    then show ?thesis using True IH by (simp add: ys removeIndexes_append)
  next
    case False
    then have "notReplicatingReplicas env ks sh (length pre) (x # xs)
        = notReplicatingReplicas env ks sh (Suc (length pre)) xs"
      by (auto simp: notReplicating_def)
    then show ?thesis using False IH by (simp add: ys)
  qed
qed

lemma keep_filter:
  "length ys = length xs \<Longrightarrow> \<forall>j<length xs. P (xs ! j) = P (ys ! j) \<Longrightarrow>
   map snd (filter (\<lambda>(x, y). \<not> P x) (zip xs ys)) = filter (\<lambda>y. \<not> P y) ys"
proof (induction xs ys rule: list_induct2')
  case (4 x xs y ys)
  from 4(3) have "P x = P y" by fastforce
  moreover from 4(3) have "\<forall>j<length xs. P (xs ! j) = P (ys ! j)" by fastforce
  ultimately show ?case using 4 by simp
qed simp_all

text \<open>The entry marked dead and the collected indexes removed: a filter of the marked list.\<close>

lemma notReplicating_Analysis [simp]:
  "notReplicating env ks sh (r\<lparr>Analysis := c\<rparr>) = notReplicating env ks sh r"
  by (simp add: notReplicating_def)

lemma reconcile_step:
  "removeIndexes (rev (notReplicatingReplicas env ks sh 0 result))
     (result[i := (result ! i)\<lparr>Analysis := DeadPrimary\<rparr>])
   = filter (\<lambda>r. \<not> notReplicating env ks sh r) (result[i := (result ! i)\<lparr>Analysis := DeadPrimary\<rparr>])"
proof -
  let ?ys = "result[i := (result ! i)\<lparr>Analysis := DeadPrimary\<rparr>]"
  have len: "length ?ys = length result" by simp
  have same: "\<forall>j<length result. notReplicating env ks sh (result ! j) = notReplicating env ks sh (?ys ! j)"
    by (cases "i < length result") (auto simp: nth_list_update)
  from removeIndexes_notReplicating[OF len, of env ks sh "[]"] keep_filter[OF len same]
  show ?thesis by simp
qed

lemma findDeadPrimary_Some:
  "findDeadPrimary env clusters result i rest = Inr (Some (j, idxs)) \<Longrightarrow>
   i \<le> j \<and> j < i + length rest \<and> Analysis (rest ! (j - i)) = InvalidPrimary
   \<and> (\<exists>ca. clusters (getKeyspaceShardName env (AnalyzedKeyspace (rest ! (j - i))) (AnalyzedShard (rest ! (j - i)))) = Some ca
        \<and> totalTablets ca - 1 > 0
        \<and> int (length idxs) = totalTablets ca - 1)
   \<and> idxs = notReplicatingReplicas env (AnalyzedKeyspace (rest ! (j - i))) (AnalyzedShard (rest ! (j - i))) 0 result"
proof (induction rest arbitrary: i)
  case Nil
  then show ?case by simp
next
  case (Cons a rest)
  show ?case
  proof (cases "findDeadPrimary env clusters result (Suc i) rest = Inr (Some (j, idxs))")
    case True
    from Cons.IH[OF True] have "Suc i \<le> j" by simp
    then have "j - i = Suc (j - Suc i)" by simp
    with Cons.IH[OF True] show ?thesis by auto
  next
    case False
    with Cons.prems show ?thesis
      by (auto simp: Let_def split: if_splits option.splits)
  qed
qed

lemma findDeadPrimary_shrinks:
  assumes "findDeadPrimary env clusters result 0 result = Inr (Some (i, idxs))"
  shows "length (removeIndexes (rev idxs) (result[i := (result ! i)\<lparr>Analysis := DeadPrimary\<rparr>])) < length result"
proof -
  let ?ks = "AnalyzedKeyspace (result ! i)" and ?sh = "AnalyzedShard (result ! i)"
  let ?ys = "result[i := (result ! i)\<lparr>Analysis := DeadPrimary\<rparr>]"
  from findDeadPrimary_Some[OF assms] have
    idxs: "idxs = notReplicatingReplicas env ?ks ?sh 0 result" and pos: "length idxs > 0"
    by auto
  have "length (filter (notReplicating env ?ks ?sh) ?ys) = length (filter (notReplicating env ?ks ?sh) result)"
  proof -
    have "map (notReplicating env ?ks ?sh) ?ys = map (notReplicating env ?ks ?sh) result"
      by (cases "i < length result") (auto simp: list_eq_iff_nth_eq nth_list_update)
    then have "length (filter id (map (notReplicating env ?ks ?sh) ?ys)) = length (filter id (map (notReplicating env ?ks ?sh) result))"
      by simp
    then show ?thesis by (simp add: filter_map comp_def)
  qed
  with pos idxs have "length (filter (notReplicating env ?ks ?sh) ?ys) > 0"
    by (simp add: length_notReplicatingReplicas)
  moreover have "length (filter (notReplicating env ?ks ?sh) ?ys) + length (filter (\<lambda>r. \<not> notReplicating env ?ks ?sh r) ?ys) = length result"
    using sum_length_filter_compl[of "notReplicating env ?ks ?sh" ?ys] by simp
  ultimately show ?thesis
    unfolding idxs reconcile_step by linarith
qed

text \<open>
  \<^verbatim>\<open>postProcessAnalyses\<close>: rounds until one changes nothing. A round that finds such a primary
  marks it \<open>DeadPrimary\<close>, removes the collected results from the last index to the first,
  and the next round starts over the new results. Every such round removes a result, which
  is the termination argument. The results are distinct objects (the scan makes one per
  row), so marking one is an update of the list at its index.
\<close>

function postProcessAnalyses ::
  "'d Collaborators \<Rightarrow> ReplicationAnalysis list \<Rightarrow> (string \<rightharpoonup> 'd clusterAnalysis)
     \<Rightarrow> panic + ReplicationAnalysis list" where
  "postProcessAnalyses env result clusters =
     (case findDeadPrimary env clusters result 0 result of
        Inl p \<Rightarrow> Inl p
      | Inr None \<Rightarrow> Inr result
      | Inr (Some (i, idxs)) \<Rightarrow>
          postProcessAnalyses env
            (removeIndexes (rev idxs)
               (result[i := (result ! i)\<lparr>Analysis := DeadPrimary\<rparr>]))
            clusters)"
  by pat_completeness auto
termination
  by (relation "measure (\<lambda>(env, result, clusters). length result)")
     (auto dest: findDeadPrimary_shrinks)

declare postProcessAnalyses.simps [simp del]

text \<open>The condition under which an invalid primary \<open>p\<close> of \<open>result\<close> is marked dead (line 631).\<close>

definition allOthersDown ::
  "'d Collaborators \<Rightarrow> (string \<rightharpoonup> 'd clusterAnalysis) \<Rightarrow> ReplicationAnalysis list
     \<Rightarrow> ReplicationAnalysis \<Rightarrow> bool" where
  "allOthersDown env clusters result p =
     (case clusters (getKeyspaceShardName env (AnalyzedKeyspace p) (AnalyzedShard p)) of
        None \<Rightarrow> False
      | Some ca \<Rightarrow>
          totalTablets ca - 1 > 0
          \<and> int (length (filter (notReplicating env (AnalyzedKeyspace p) (AnalyzedShard p)) result))
              = totalTablets ca - 1)"

text \<open>A result of the shard \<open>sh\<close> of the keyspace \<open>ks\<close>.\<close>

definition inShard :: "string \<Rightarrow> string \<Rightarrow> ReplicationAnalysis \<Rightarrow> bool" where
  "inShard ks sh r = (AnalyzedKeyspace r = ks \<and> AnalyzedShard r = sh)"

text \<open>
  \<^verbatim>\<open>GetReplicationAnalysis\<close>: the scan from no aggregates and no results, then the
  reconciliation. The rows the store delivered and the error of the scan, if any, are
  given; the error is returned beside the results.
\<close>

definition GetReplicationAnalysis ::
  "'d Collaborators \<Rightarrow> Row list \<Rightarrow> 'e option \<Rightarrow> panic + (ReplicationAnalysis list \<times> 'e option)" where
  "GetReplicationAnalysis env rows err =
     (case scanRows env Map.empty [] rows of
        (clusters, result) \<Rightarrow>
          (case postProcessAnalyses env result clusters of
             Inl p \<Rightarrow> Inl p
           | Inr result' \<Rightarrow> Inr (result', err)))"

section \<open>The audit of analysis changes: \<^verbatim>\<open>auditInstanceAnalysisInChangelog\<close>\<close>

text \<open>
  The store can fail at each statement: at its execution (\<^verbatim>\<open>db.ExecVTOrc\<close> returns the
  error and the statement has no effect) or, for the two statements whose count of
  affected rows is read, at \<^verbatim>\<open>RowsAffected\<close> (the statement has taken effect). An error
  value tells which call failed.
\<close>

datatype dberror =
    UpdateLastAnalysisFailed | UpdateRowsAffectedFailed
  | InsertLastAnalysisFailed | InsertRowsAffectedFailed | InsertChangelogFailed

text \<open>What happens at one statement of one call, and at the three statements of a call.\<close>

datatype fault = NoFault | ExecFails | RowsAffectedFails

record faults =
  onUpdate :: fault
  onInsertIgnore :: fault
  onChangelog :: fault

text \<open>
  Modelled from the spec: the schema of the two tables, which is declared outside this file.
  The specification gives \<^verbatim>\<open>database_instance_last_analysis\<close> as a single row per alias (the
  key on which the \<^verbatim>\<open>INSERT OR IGNORE\<close> of line 692 ignores) and
  \<^verbatim>\<open>database_instance_analysis_changelog\<close> as append-only rows of alias, code and timestamp.
  So the first table is a map from alias to code and the second a list in insertion order;
  timestamps are left out, since nothing in the audit reads them. The other two fields are
  the cache \<^verbatim>\<open>recentInstantAnalysis\<close> (alias to last written code; an entry that times out is
  removed by the event \<open>Expire\<close> below; the cache is taken as initialised) and the counter
  \<^verbatim>\<open>analysisChangeWriteCounter\<close>.
\<close>

record auditState =
  recentInstantAnalysis :: "string \<rightharpoonup> AnalysisCode"
  database_instance_last_analysis :: "string \<rightharpoonup> AnalysisCode"
  database_instance_analysis_changelog :: "(string \<times> AnalysisCode) list"
  analysisChangeWriteCounter :: nat

text \<open>
  Lines 665 to 684: \<^verbatim>\<open>UPDATE database_instance_last_analysis SET analysis = ? WHERE alias = ?
  AND analysis != ?\<close>, and the number of rows it changed.
\<close>

definition updateLastAnalysis ::
  "fault \<Rightarrow> string \<Rightarrow> AnalysisCode \<Rightarrow> auditState \<Rightarrow> auditState \<times> (dberror + nat)" where
  "updateLastAnalysis f tabletAlias analysisCode st =
     (if f = ExecFails then (st, Inl UpdateLastAnalysisFailed)
      else
        (let matches = (case database_instance_last_analysis st tabletAlias of
                          None \<Rightarrow> False | Some c \<Rightarrow> c \<noteq> analysisCode);
             st' = (if matches
                    then st\<lparr>database_instance_last_analysis :=
                              (database_instance_last_analysis st)(tabletAlias \<mapsto> analysisCode)\<rparr>
                    else st)
         in if f = RowsAffectedFails then (st', Inl UpdateRowsAffectedFailed)
            else (st', Inr (if matches then 1 else 0))))"

text \<open>
  Lines 692 to 713: \<^verbatim>\<open>INSERT OR IGNORE INTO database_instance_last_analysis\<close>, and the number
  of rows it inserted.
\<close>

definition insertIgnoreLastAnalysis ::
  "fault \<Rightarrow> string \<Rightarrow> AnalysisCode \<Rightarrow> auditState \<Rightarrow> auditState \<times> (dberror + nat)" where
  "insertIgnoreLastAnalysis f tabletAlias analysisCode st =
     (if f = ExecFails then (st, Inl InsertLastAnalysisFailed)
      else
        (let absent = (database_instance_last_analysis st tabletAlias = None);
             st' = (if absent
                    then st\<lparr>database_instance_last_analysis :=
                              (database_instance_last_analysis st)(tabletAlias \<mapsto> analysisCode)\<rparr>
                    else st)
         in if f = RowsAffectedFails then (st', Inl InsertRowsAffectedFailed)
            else (st', Inr (if absent then 1 else 0))))"

text \<open>
  Lines 721 to 732: \<^verbatim>\<open>INSERT INTO database_instance_analysis_changelog\<close>; only the error of
  the execution is read.
\<close>

definition insertChangelog ::
  "fault \<Rightarrow> string \<Rightarrow> AnalysisCode \<Rightarrow> auditState \<Rightarrow> auditState \<times> dberror option" where
  "insertChangelog f tabletAlias analysisCode st =
     (if f = ExecFails then (st, Some InsertChangelogFailed)
      else (st\<lparr>database_instance_analysis_changelog :=
                 database_instance_analysis_changelog st @ [(tabletAlias, analysisCode)]\<rparr>, None))"

text \<open>\<^verbatim>\<open>recentInstantAnalysis.Set(tabletAlias, analysisCode, cache.DefaultExpiration)\<close>.\<close>

definition cacheSet :: "string \<Rightarrow> AnalysisCode \<Rightarrow> auditState \<Rightarrow> auditState" where
  "cacheSet tabletAlias analysisCode st =
     st\<lparr>recentInstantAnalysis := (recentInstantAnalysis st)(tabletAlias \<mapsto> analysisCode)\<rparr>"

text \<open>
  \<^verbatim>\<open>auditInstanceAnalysisInChangelog\<close> (lines 652 to 739), with the faults of this call: the
  new state and the error returned (\<open>None\<close> is nil).
\<close>

definition auditInstanceAnalysisInChangelog ::
  "faults \<Rightarrow> string \<Rightarrow> AnalysisCode \<Rightarrow> auditState \<Rightarrow> auditState \<times> dberror option" where
  "auditInstanceAnalysisInChangelog f tabletAlias analysisCode st =
     (if recentInstantAnalysis st tabletAlias = Some analysisCode
      then (cacheSet tabletAlias analysisCode st, None)
      else
        case updateLastAnalysis (onUpdate f) tabletAlias analysisCode st of
          (st1, Inl err) \<Rightarrow> (st1, Some err)
        | (st1, Inr rows) \<Rightarrow>
            (let lastAnalysisChanged = (rows > 0) in
             case (if \<not> lastAnalysisChanged
                   then insertIgnoreLastAnalysis (onInsertIgnore f) tabletAlias analysisCode st1
                   else (st1, Inr 0)) of
               (st2, Inl err) \<Rightarrow> (st2, Some err)
             | (st2, Inr rows2) \<Rightarrow>
                 (let firstInsertion = (\<not> lastAnalysisChanged \<and> rows2 > 0);
                      st3 = cacheSet tabletAlias analysisCode st2
                  in if \<not> lastAnalysisChanged \<and> \<not> firstInsertion then (st3, None)
                     else case insertChangelog (onChangelog f) tabletAlias analysisCode st3 of
                            (st4, None) \<Rightarrow>
                              (st4\<lparr>analysisChangeWriteCounter := analysisChangeWriteCounter st4 + 1\<rparr>, None)
                          | (st4, Some err) \<Rightarrow> (st4, Some err))))"

text \<open>
  Sequential use: calls of the audit, and cache entries timing out between them.
\<close>

datatype auditEvent = Audit faults string AnalysisCode | Expire string

fun auditStep :: "auditEvent \<Rightarrow> auditState \<Rightarrow> auditState" where
  "auditStep (Audit f tabletAlias analysisCode) st =
     fst (auditInstanceAnalysisInChangelog f tabletAlias analysisCode st)"
| "auditStep (Expire tabletAlias) st =
     st\<lparr>recentInstantAnalysis := (recentInstantAnalysis st)(tabletAlias := None)\<rparr>"

fun auditRun :: "auditEvent list \<Rightarrow> auditState \<Rightarrow> auditState" where
  "auditRun [] st = st"
| "auditRun (e # es) st = auditRun es (auditStep e st)"

text \<open>A call during which the store does not fail.\<close>

definition noFaults :: faults where
  "noFaults = \<lparr>onUpdate = NoFault, onInsertIgnore = NoFault, onChangelog = NoFault\<rparr>"

text \<open>The codes of the changelog rows of an alias, in order.\<close>

definition changelogOf :: "string \<Rightarrow> auditState \<Rightarrow> AnalysisCode list" where
  "changelogOf tabletAlias st =
     map snd (filter (\<lambda>row. fst row = tabletAlias) (database_instance_analysis_changelog st))"

text \<open>An event that, if it is a call for the alias, carries the given code.\<close>

fun auditsOnly :: "string \<Rightarrow> AnalysisCode \<Rightarrow> auditEvent \<Rightarrow> bool" where
  "auditsOnly tabletAlias analysisCode (Audit f al c) = (al = tabletAlias \<longrightarrow> c = analysisCode)"
| "auditsOnly tabletAlias analysisCode (Expire al) = True"

fun isExpire :: "auditEvent \<Rightarrow> bool" where
  "isExpire (Audit f al c) = False"
| "isExpire (Expire al) = True"

section \<open>Inputs for the examples\<close>

text \<open>
  An instance of the functions taken as parameters. A policy is the number of semi-sync
  acknowledgements it asks for: \<open>none\<close> asks for none, \<open>semi_sync\<close> for one, any other name
  is unknown. The replica types are those that are not primary, backup, restore or drained;
  the key of a shard is keyspace, colon, shard; an alias is rendered by its cell, which is
  enough to tell the tablets of the examples apart.
\<close>

definition exampleEnv :: "nat Collaborators" where
  "exampleEnv = \<lparr>
     IsReplicaType = (\<lambda>t. t \<noteq> PRIMARY \<and> t \<noteq> BACKUP \<and> t \<noteq> RESTORE \<and> t \<noteq> DRAINED),
     getKeyspaceShardName = (\<lambda>ks sh. ks @ '':'' @ sh),
     TabletAliasString = (\<lambda>al. case al of None \<Rightarrow> ''<nil>'' | Some x \<Rightarrow> Cell x),
     GetDurabilityPolicy = (\<lambda>n. if n = ''none'' then Some 0 else if n = ''semi_sync'' then Some 1 else None),
     SemiSyncAckers = (\<lambda>d t. int d),
     IsReplicaSemiSync = (\<lambda>d pt t. d > 0 \<and> Type t = REPLICA)\<rparr>"

text \<open>The row with every column at its zero value.\<close>

definition zeroRow :: Row where
  "zeroRow = \<lparr>
     tablet_info = EmptyText, primary_tablet_info = EmptyText, current_tablet_type = UNKNOWN,
     keyspace = [], shard = [], primary_timestamp = None, keyspace_type = NORMAL,
     durability_policy = [], shard_primary_term_timestamp = None, is_primary = False,
     binary_log_file = [], binary_log_pos = 0, is_stale_binlog_coordinates = False,
     gtid_mode = [], is_last_check_valid = False, last_check_partial_success = False,
     count_replicas = 0, count_valid_replicas = 0, count_valid_replicating_replicas = 0,
     replication_stopped = False, gtid_errant = [], count_valid_oracle_gtid_replicas = 0,
     count_valid_binlog_server_replicas = 0, semi_sync_primary_enabled = False,
     semi_sync_primary_status = False, semi_sync_blocked = False,
     semi_sync_replica_enabled = False, count_semi_sync_replicas = 0,
     semi_sync_primary_wait_for_replica_count = 0, semi_sync_primary_clients = 0,
     min_replica_gtid_mode = [], max_replica_gtid_mode = [], max_replica_gtid_errant = [],
     count_logging_replicas = 0, count_statement_based_logging_replicas = 0,
     count_mixed_based_logging_replicas = 0, count_row_based_logging_replicas = 0,
     count_distinct_logging_major_versions = 0, count_delayed_replicas = 0,
     count_lagging_replicas = 0, replica_net_timeout = 0, heartbeat_interval = 0,
     read_only = 0, is_disk_stalled = False, is_invalid = False\<rparr>"

text \<open>A primary tablet and a replica tablet of a cell.\<close>

definition primaryTabletOf :: "string \<Rightarrow> Tablet" where
  "primaryTabletOf cell = \<lparr>Alias = Some \<lparr>Cell = cell, Uid = 100\<rparr>, Type = PRIMARY\<rparr>"

definition replicaTabletOf :: "string \<Rightarrow> Tablet" where
  "replicaTabletOf cell = \<lparr>Alias = Some \<lparr>Cell = cell, Uid = 101\<rparr>, Type = REPLICA\<rparr>"

text \<open>A reachable, writable primary of shard ks/0 under the policy none.\<close>

definition primaryRow :: Row where
  "primaryRow = zeroRow\<lparr>
     tablet_info := Decoded (primaryTabletOf ''zone1''), keyspace := ''ks'', shard := ''0'',
     durability_policy := ''none'', is_primary := True, is_last_check_valid := True,
     current_tablet_type := PRIMARY\<rparr>"

text \<open>A healthy read-only replica of that primary, heartbeat 2.0 and net timeout 4.\<close>

definition replicaRow :: Row where
  "replicaRow = zeroRow\<lparr>
     tablet_info := Decoded (replicaTabletOf ''zone2''),
     primary_tablet_info := Decoded (primaryTabletOf ''zone1''),
     keyspace := ''ks'', shard := ''0'', durability_policy := ''none'',
     is_last_check_valid := True, read_only := 1, heartbeat_interval := 2,
     replica_net_timeout := 4, current_tablet_type := REPLICA\<rparr>"

text \<open>Results as the reconciliation receives them, and a shard aggregate of a given size.\<close>

definition invalidPrimaryAnalysis :: ReplicationAnalysis where
  "invalidPrimaryAnalysis = emptyAnalysis\<lparr>
     AnalyzedInstanceAlias := ''zone1'', AnalyzedKeyspace := ''ks'', AnalyzedShard := ''0'',
     TabletType := PRIMARY, IsClusterPrimary := True, Analysis := InvalidPrimary\<rparr>"

definition stoppedReplicaAnalysis :: ReplicationAnalysis where
  "stoppedReplicaAnalysis = emptyAnalysis\<lparr>
     AnalyzedInstanceAlias := ''zone2'', AnalyzedKeyspace := ''ks'', AnalyzedShard := ''0'',
     TabletType := REPLICA, LastCheckValid := True, ReplicationStopped_field := True,
     IsReadOnly := True, Analysis := ReplicationStopped\<rparr>"

definition shardOfSize :: "int \<Rightarrow> (string \<rightharpoonup> nat clusterAnalysis)" where
  "shardOfSize n = [''ks:0'' \<mapsto> \<lparr>hasShardWideAction = False, totalTablets = n,
     primaryAlias = ''zone1'', durability = Some 0\<rparr>]"

text \<open>An unreachable primary without replicas, and a second primary-type row of the same shard.\<close>

definition deadPrimaryRows :: "Row list" where
  "deadPrimaryRows =
     [primaryRow\<lparr>is_last_check_valid := False\<rparr>,
      primaryRow\<lparr>is_last_check_valid := False, tablet_info := Decoded (primaryTabletOf ''zone3'')\<rparr>]"

text \<open>The aggregate of shard ks/0 after a shard-wide action was taken for it.\<close>

definition flaggedShard :: "string \<rightharpoonup> nat clusterAnalysis" where
  "flaggedShard = [''ks:0'' \<mapsto> \<lparr>hasShardWideAction = True, totalTablets = 1,
     primaryAlias = ''zone1'', durability = Some 0\<rparr>]"

text \<open>
  The analysis record of a read-only replica that reports a primary, with the given
  heartbeat interval and net timeout.
\<close>

definition replicaAnalysis :: "real \<Rightarrow> int \<Rightarrow> ReplicationAnalysis" where
  "replicaAnalysis h t = emptyAnalysis\<lparr>
     AnalyzedInstanceAlias := ''zone2'', AnalyzedInstancePrimaryAlias := ''zone1'',
     AnalyzedKeyspace := ''ks'', AnalyzedShard := ''0'', TabletType := REPLICA,
     LastCheckValid := True, IsReadOnly := True, HeartbeatInterval := h, ReplicaNetTimeout := t\<rparr>"

text \<open>A shard whose replica row comes before its primary-type row.\<close>

definition replicaFirstRows :: "Row list" where
  "replicaFirstRows = [replicaRow, primaryRow]"

text \<open>The audit state of a fresh process and store, and calls that all carry one code.\<close>

definition emptyAuditState :: auditState where
  "emptyAuditState = \<lparr>recentInstantAnalysis = Map.empty, database_instance_last_analysis = Map.empty,
     database_instance_analysis_changelog = [], analysisChangeWriteCounter = 0\<rparr>"

definition sameCodeEvents :: "auditEvent list" where
  "sameCodeEvents =
     [Audit noFaults ''zone1'' DeadPrimary, Audit noFaults ''zone1'' DeadPrimary,
      Expire ''zone1'', Audit noFaults ''zone1'' DeadPrimary]"

text \<open>
  A second shard ks/1 with an invalid primary and a stopped replica, and the aggregates of
  the two shards: ks/0 has two tablets, ks/1 has three, one of which has no result.
\<close>

definition invalidPrimaryOfShard1 :: ReplicationAnalysis where
  "invalidPrimaryOfShard1 = invalidPrimaryAnalysis\<lparr>AnalyzedInstanceAlias := ''zone3'', AnalyzedShard := ''1''\<rparr>"

definition stoppedReplicaOfShard1 :: ReplicationAnalysis where
  "stoppedReplicaOfShard1 = stoppedReplicaAnalysis\<lparr>AnalyzedInstanceAlias := ''zone4'', AnalyzedShard := ''1''\<rparr>"

definition twoShards :: "string \<rightharpoonup> nat clusterAnalysis" where
  "twoShards = [''ks:0'' \<mapsto> \<lparr>hasShardWideAction = False, totalTablets = 2,
                             primaryAlias = ''zone1'', durability = Some 0\<rparr>,
                ''ks:1'' \<mapsto> \<lparr>hasShardWideAction = False, totalTablets = 3,
                             primaryAlias = ''zone3'', durability = Some 0\<rparr>]"

definition twoShardResults :: "ReplicationAnalysis list" where
  "twoShardResults =
     [invalidPrimaryAnalysis, stoppedReplicaAnalysis, invalidPrimaryOfShard1, stoppedReplicaOfShard1]"

text \<open>Two rows of a shard whose durability policy does not resolve.\<close>

definition unresolvedShardRows :: "Row list" where
  "unresolvedShardRows =
     [primaryRow\<lparr>durability_policy := ''bogus''\<rparr>, replicaRow\<lparr>durability_policy := ''bogus''\<rparr>]"

text \<open>A store whose last-analysis record of the alias holds another code.\<close>

definition auditedState :: auditState where
  "auditedState = emptyAuditState\<lparr>database_instance_last_analysis := [''zone1'' \<mapsto> InvalidPrimary]\<rparr>"

section \<open>Properties of the chain and of the callback\<close>

lemmas example_defs = exampleEnv_def zeroRow_def primaryTabletOf_def replicaTabletOf_def
  primaryRow_def replicaRow_def

lemmas pass_defs = processRow_def aggregate_def analyse_def classify_def analysisChain_def
  structureAnalysis_def readState_def readIdentity_def emptyAnalysis_def unmarshalTablet_def
  zeroTablet_def IsZero_def math_Round_def appendAnalysis_def record_outcome_def

lemmas reconcile_defs = invalidPrimaryAnalysis_def stoppedReplicaAnalysis_def shardOfSize_def
  emptyAnalysis_def exampleEnv_def notReplicating_def allOthersDown_def

lemma chain_flag:
  "flagAgrees (analysisChain env d pa tablet primaryTablet isInv stale a)"
  unfolding analysisChain_def
  by (simp add: if_distrib[of flagAgrees] flagAgrees_def isShardWide_def cong del: if_weak_cong)

lemma classify_fields:
  "classify env d pa tablet primaryTablet isInv stale a = (a', f) \<Longrightarrow>
   a' = a\<lparr>Analysis := Analysis a', Description := Description a'\<rparr>"
  by (auto simp: classify_def split: option.splits)

lemma classify_keeps:
  "IsClusterPrimary (fst (classify env d pa tablet primaryTablet isInv stale a)) = IsClusterPrimary a"
  "StructureAnalysis (fst (classify env d pa tablet primaryTablet isInv stale a)) = StructureAnalysis a"
  "TabletType (fst (classify env d pa tablet primaryTablet isInv stale a)) = TabletType a"
  "AnalyzedInstanceAlias (fst (classify env d pa tablet primaryTablet isInv stale a)) = AnalyzedInstanceAlias a"
  by (auto simp: classify_def split: option.splits)

lemma classify_flag:
  "Analysis a = NoProblem \<Longrightarrow>
   snd (classify env d pa tablet primaryTablet isInv stale a)
     = isShardWide (Analysis (fst (classify env d pa tablet primaryTablet isInv stale a)))"
  using chain_flag[of env d pa tablet primaryTablet isInv stale a]
  by (auto simp: classify_def flagAgrees_def isShardWide_def split: option.splits)

lemma classify_invalid:
  "Analysis (fst (classify env d pa tablet primaryTablet True stale a))
     = (if IsClusterPrimary a then InvalidPrimary else InvalidReplica)"
  by (simp add: classify_def analysisChain_def)

lemma structureAnalysis_keeps:
  "Analysis (structureAnalysis a) = Analysis a"
  "IsClusterPrimary (structureAnalysis a) = IsClusterPrimary a"
  "TabletType (structureAnalysis a) = TabletType a"
  "AnalyzedInstanceAlias (structureAnalysis a) = AnalyzedInstanceAlias a"
  by (simp_all add: structureAnalysis_def)

lemma emptyAnalysis_simps:
  "Analysis emptyAnalysis = NoProblem" "IsClusterPrimary emptyAnalysis = False"
  "StructureAnalysis emptyAnalysis = []"
  by (simp_all add: emptyAnalysis_def)

lemma readIdentity_simps:
  "Analysis (readIdentity m t a) = Analysis a"
  "IsClusterPrimary (readIdentity m t a) = IsClusterPrimary a"
  "StructureAnalysis (readIdentity m t a) = StructureAnalysis a"
  "TabletType (readIdentity m t a) = Type t"
  "AnalyzedKeyspace (readIdentity m t a) = keyspace m"
  "AnalyzedShard (readIdentity m t a) = shard m"
  by (simp_all add: readIdentity_def)

lemma readState_simps:
  "Analysis (readState env m t pt a) = Analysis a"
  "IsClusterPrimary (readState env m t pt a) = IsClusterPrimary a"
  "StructureAnalysis (readState env m t pt a) = StructureAnalysis a"
  "TabletType (readState env m t pt a) = TabletType a"
  "AnalyzedKeyspace (readState env m t pt a) = AnalyzedKeyspace a"
  "AnalyzedShard (readState env m t pt a) = AnalyzedShard a"
  "AnalyzedInstanceAlias (readState env m t pt a) = TabletAliasString env (Alias t)"
  by (simp_all add: readState_def)

lemmas keeps = classify_keeps structureAnalysis_keeps emptyAnalysis_simps readIdentity_simps readState_simps

lemma analyse_map:
  "analyse env cl k ca m t pt a = (cl', out) \<Longrightarrow>
   \<exists>ca'. cl' = cl(k \<mapsto> ca') \<and> primaryAlias ca' = primaryAlias ca \<and> durability ca' = durability ca
     \<and> totalTablets ca' = totalTablets ca + 1 \<and> (hasShardWideAction ca \<longrightarrow> hasShardWideAction ca')"
  by (auto simp: analyse_def Let_def split: if_splits option.splits prod.splits)

lemma analyse_flagged:
  "hasShardWideAction ca \<Longrightarrow> snd (analyse env cl k ca m t pt a) = Skipped ShardWideActionTaken a"
  by (simp add: analyse_def Let_def)

lemma analyse_Classified:
  "analyse env cl k ca m t pt a = (cl', Classified a') \<Longrightarrow>
   \<exists>d. durability ca = Some d \<and> \<not> hasShardWideAction ca
     \<and> a' = structureAnalysis (fst (classify env d (primaryAlias ca) t pt (is_invalid m) (is_stale_binlog_coordinates m) a))
     \<and> cl' = cl(k \<mapsto> (if snd (classify env d (primaryAlias ca) t pt (is_invalid m) (is_stale_binlog_coordinates m) a)
                         then ca\<lparr>totalTablets := totalTablets ca + 1, hasShardWideAction := True\<rparr>
                         else ca\<lparr>totalTablets := totalTablets ca + 1\<rparr>))"
  by (auto simp: analyse_def Let_def split: if_splits option.splits prod.splits)

lemma analyse_outcome:
  "analyse env cl k ca m t pt a = (cl', out) \<Longrightarrow>
   IsClusterPrimary (outcomeAnalysis out) = IsClusterPrimary a
   \<and> TabletType (outcomeAnalysis out) = TabletType a
   \<and> AnalyzedInstanceAlias (outcomeAnalysis out) = AnalyzedInstanceAlias a"
  by (auto simp: analyse_def Let_def keeps split: if_splits option.splits prod.splits dest!: arg_cong[where f=fst])

lemma aggregate_found:
  "cl (getKeyspaceShardName env (AnalyzedKeyspace a) (AnalyzedShard a)) = Some ca \<Longrightarrow>
   aggregate env cl m t pt a
     = analyse env cl (getKeyspaceShardName env (AnalyzedKeyspace a) (AnalyzedShard a)) ca m t pt a"
  by (simp add: aggregate_def)

lemma aggregate_map:
  assumes "aggregate env cl m t pt a = (cl', out)"
  shows "\<exists>ca'. cl' = cl(getKeyspaceShardName env (AnalyzedKeyspace a) (AnalyzedShard a) \<mapsto> ca')
     \<and> (case cl (getKeyspaceShardName env (AnalyzedKeyspace a) (AnalyzedShard a)) of
           Some ca \<Rightarrow> primaryAlias ca' = primaryAlias ca
                       \<and> (hasShardWideAction ca \<longrightarrow> hasShardWideAction ca')
                       \<and> IsClusterPrimary (outcomeAnalysis out) = IsClusterPrimary a
         | None \<Rightarrow> primaryAlias ca' = (if TabletType a = PRIMARY then AnalyzedInstanceAlias a else [])
                       \<and> IsClusterPrimary (outcomeAnalysis out) = (TabletType a = PRIMARY \<or> IsClusterPrimary a))
     \<and> TabletType (outcomeAnalysis out) = TabletType a
     \<and> AnalyzedInstanceAlias (outcomeAnalysis out) = AnalyzedInstanceAlias a"
proof (cases "cl (getKeyspaceShardName env (AnalyzedKeyspace a) (AnalyzedShard a))")
  case (Some ca)
  with assms have an: "analyse env cl (getKeyspaceShardName env (AnalyzedKeyspace a) (AnalyzedShard a)) ca m t pt a = (cl', out)"
    by (simp add: aggregate_found)
  from analyse_map[OF an] analyse_outcome[OF an] Some show ?thesis by auto
next
  case None
  let ?k = "getKeyspaceShardName env (AnalyzedKeyspace a) (AnalyzedShard a)"
  let ?ca1 = "\<lparr>hasShardWideAction = False, totalTablets = 0,
               primaryAlias = (if TabletType a = PRIMARY then AnalyzedInstanceAlias a else []),
               durability = None\<rparr> :: 'a clusterAnalysis"
  let ?a1 = "if TabletType a = PRIMARY then a\<lparr>IsClusterPrimary := True\<rparr> else a"
  show ?thesis
  proof (cases "durability_policy m = [] \<or> GetDurabilityPolicy env (durability_policy m) = None")
    case True
    with None assms have "cl' = cl(?k \<mapsto> ?ca1)" "out = Skipped NoDurabilityPolicy ?a1 \<or> out = Skipped DurabilityPolicyError ?a1"
      by (auto simp: aggregate_def Let_def split: if_splits option.splits)
    with None show ?thesis by auto
  next
    case False
    then obtain d where d: "GetDurabilityPolicy env (durability_policy m) = Some d" "durability_policy m \<noteq> []" by auto
    with None assms have an: "analyse env (cl(?k \<mapsto> ?ca1\<lparr>durability := Some d\<rparr>)) ?k (?ca1\<lparr>durability := Some d\<rparr>) m t pt ?a1 = (cl', out)"
      by (auto simp: aggregate_def Let_def split: if_splits)
    from analyse_map[OF an] analyse_outcome[OF an] None show ?thesis by auto
  qed
qed

lemma aggregate_flagged:
  "cl (getKeyspaceShardName env (AnalyzedKeyspace a) (AnalyzedShard a)) = Some ca \<Longrightarrow>
   hasShardWideAction ca \<Longrightarrow>
   snd (aggregate env cl m t pt a) = Skipped ShardWideActionTaken a"
  by (simp add: aggregate_found analyse_flagged)

lemma aggregate_Classified:
  assumes "aggregate env cl m t pt a = (cl', Classified a')" "Analysis a = NoProblem"
  shows "(isShardWide (Analysis a') \<longrightarrow> flagged cl' (getKeyspaceShardName env (AnalyzedKeyspace a) (AnalyzedShard a)))
       \<and> (is_invalid m \<longrightarrow> Analysis a' = (if IsClusterPrimary a' then InvalidPrimary else InvalidReplica))"
proof -
  let ?k = "getKeyspaceShardName env (AnalyzedKeyspace a) (AnalyzedShard a)"
  from assms(1) obtain cl0 ca a0 where
    an: "analyse env cl0 ?k ca m t pt a0 = (cl', Classified a')" and a0: "Analysis a0 = NoProblem"
    using assms(2)
    by (auto simp: aggregate_def Let_def split: if_splits option.splits)
  from analyse_Classified[OF an] obtain d where
    a': "a' = structureAnalysis (fst (classify env d (primaryAlias ca) t pt (is_invalid m) (is_stale_binlog_coordinates m) a0))"
    and cl': "cl' = cl0(?k \<mapsto> (if snd (classify env d (primaryAlias ca) t pt (is_invalid m) (is_stale_binlog_coordinates m) a0)
                         then ca\<lparr>totalTablets := totalTablets ca + 1, hasShardWideAction := True\<rparr>
                         else ca\<lparr>totalTablets := totalTablets ca + 1\<rparr>))"
    by blast
  have 1: "isShardWide (Analysis a') \<longrightarrow> flagged cl' ?k"
    using classify_flag[OF a0, of env d "primaryAlias ca" t pt "is_invalid m" "is_stale_binlog_coordinates m"]
    by (simp add: a' cl' flagged_def keeps)
  have 2: "is_invalid m \<longrightarrow> Analysis a' = (if IsClusterPrimary a' then InvalidPrimary else InvalidReplica)"
    using classify_invalid[of env d "primaryAlias ca" t pt "is_stale_binlog_coordinates m" a0]
    by (auto simp: a' keeps)
  from 1 2 show ?thesis by blast
qed

lemma processRow_not_aggregated:
  assumes "\<not> aggregated env m" "processRow env cl m = (cl', out)"
  shows "cl' = cl \<and> \<not> isClassified out \<and> Analysis (outcomeAnalysis out) = NoProblem
       \<and> \<not> IsClusterPrimary (outcomeAnalysis out) \<and> StructureAnalysis (outcomeAnalysis out) = []"
  using assms
  by (auto simp: aggregated_def processRow_def Let_def keeps split: option.splits if_splits)

lemma processRow_aggregated:
  assumes "aggregated env m"
  shows "\<exists>t pt a. processRow env cl m = aggregate env cl m t pt a \<and> Analysis a = NoProblem
       \<and> \<not> IsClusterPrimary a \<and> StructureAnalysis a = []
       \<and> AnalyzedKeyspace a = keyspace m \<and> AnalyzedShard a = shard m"
proof -
  from assms obtain t where t: "unmarshalTablet (tablet_info m) = Some t"
      "Type t = PRIMARY \<or> IsReplicaType env (Type t)"
      "primary_tablet_info m = EmptyText \<or> unmarshalTablet (primary_tablet_info m) \<noteq> None"
      "keyspace_type m \<noteq> SNAPSHOT"
    by (auto simp: aggregated_def split: option.splits)
  have "\<exists>pt. (if primary_tablet_info m = EmptyText then Some zeroTablet
        else unmarshalTablet (primary_tablet_info m)) = Some pt"
    using t(3) by (cases "primary_tablet_info m = EmptyText") auto
  then obtain pt where pt:
      "(if primary_tablet_info m = EmptyText then Some zeroTablet
        else unmarshalTablet (primary_tablet_info m)) = Some pt"
    by blast
  have "processRow env cl m
          = aggregate env cl m t pt (readState env m t pt (readIdentity m t emptyAnalysis))"
    unfolding processRow_def using t pt by (auto simp: Let_def)
  then show ?thesis
    by (intro exI[of _ t] exI[of _ pt] exI[of _ "readState env m t pt (readIdentity m t emptyAnalysis)"])
       (simp add: keeps)
qed

lemma processRow_effect:
  assumes "processRow env cl m = (cl', out)"
  shows "if aggregated env m
         then (\<exists>ca'. cl' = cl(rowKey env m \<mapsto> ca')
                \<and> (case cl (rowKey env m) of
                      Some ca \<Rightarrow> primaryAlias ca' = primaryAlias ca
                                 \<and> (hasShardWideAction ca \<longrightarrow> hasShardWideAction ca')
                                 \<and> \<not> IsClusterPrimary (outcomeAnalysis out)
                    | None \<Rightarrow> primaryAlias ca' =
                                 (if TabletType (outcomeAnalysis out) = PRIMARY
                                  then AnalyzedInstanceAlias (outcomeAnalysis out) else [])
                               \<and> IsClusterPrimary (outcomeAnalysis out)
                                  = (TabletType (outcomeAnalysis out) = PRIMARY)))
         else cl' = cl \<and> \<not> IsClusterPrimary (outcomeAnalysis out)"
proof (cases "aggregated env m")
  case False
  with processRow_not_aggregated[OF False assms] show ?thesis by simp
next
  case True
  from processRow_aggregated[OF True, of cl] assms obtain t pt a where
    ag: "aggregate env cl m t pt a = (cl', out)" and a: "\<not> IsClusterPrimary a"
      "AnalyzedKeyspace a = keyspace m" "AnalyzedShard a = shard m"
    by auto
  from aggregate_map[OF ag] a True show ?thesis
    by (auto simp: rowKey_def split: option.splits)
qed

lemma processRow_flagged:
  assumes "flagged cl (rowKey env m)" "processRow env cl m = (cl', out)"
  shows "\<not> isClassified out \<and> Analysis (outcomeAnalysis out) = NoProblem
       \<and> StructureAnalysis (outcomeAnalysis out) = []"
proof (cases "aggregated env m")
  case False
  from processRow_not_aggregated[OF False assms(2)] show ?thesis by simp
next
  case True
  from processRow_aggregated[OF True, of cl] assms(2) obtain t pt a where
    ag: "aggregate env cl m t pt a = (cl', out)" and a: "Analysis a = NoProblem" "StructureAnalysis a = []"
      "AnalyzedKeyspace a = keyspace m" "AnalyzedShard a = shard m"
    by auto
  from assms(1) obtain ca where ca: "cl (getKeyspaceShardName env (AnalyzedKeyspace a) (AnalyzedShard a)) = Some ca"
      "hasShardWideAction ca"
    by (auto simp: flagged_def rowKey_def a split: option.splits)
  from aggregate_flagged[where cl=cl and env=env and a=a and ca=ca and m=m and t=t and pt=pt, OF ca] ag have "out = Skipped ShardWideActionTaken a" by simp
  with a show ?thesis by simp
qed

lemma processRow_Classified:
  assumes "processRow env cl m = (cl', Classified a')"
  shows "(isShardWide (Analysis a') \<longrightarrow> flagged cl' (rowKey env m))
       \<and> (is_invalid m \<longrightarrow> Analysis a' = (if IsClusterPrimary a' then InvalidPrimary else InvalidReplica))"
proof (cases "aggregated env m")
  case False
  from processRow_not_aggregated[OF False assms] show ?thesis by simp
next
  case True
  from processRow_aggregated[OF True, of cl] assms obtain t pt a where
    ag: "aggregate env cl m t pt a = (cl', Classified a')" and a: "Analysis a = NoProblem"
      "AnalyzedKeyspace a = keyspace m" "AnalyzedShard a = shard m"
    by auto
  from aggregate_Classified[OF ag a(1)] a show ?thesis by (simp add: rowKey_def)
qed

lemma flagged_processRow:
  assumes "flagged cl k" "processRow env cl m = (cl', out)"
  shows "flagged cl' k"
  using processRow_effect[OF assms(2)] assms(1)
  by (auto simp: flagged_def split: option.splits if_splits)

lemma length_scanOutcomes: "length (scanOutcomes env cl ms) = length ms"
  by (induction ms arbitrary: cl) (auto split: prod.splits)

lemma flagged_scan:
  "flagged cl k \<Longrightarrow> j < length ms \<Longrightarrow> rowKey env (ms ! j) = k \<Longrightarrow>
   \<not> isClassified (scanOutcomes env cl ms ! j)
   \<and> Analysis (outcomeAnalysis (scanOutcomes env cl ms ! j)) = NoProblem
   \<and> StructureAnalysis (outcomeAnalysis (scanOutcomes env cl ms ! j)) = []"
proof (induction ms arbitrary: cl j)
  case Nil
  then show ?case by simp
next
  case (Cons m ms)
  obtain cl' out where p: "processRow env cl m = (cl', out)" by (cases "processRow env cl m")
  show ?case
  proof (cases j)
    case 0
    with Cons.prems p processRow_flagged[of cl env m cl' out] show ?thesis by simp
  next
    case (Suc j')
    from flagged_processRow[OF Cons.prems(1) p] have "flagged cl' k" .
    from Cons.IH[OF this, of j'] Cons.prems Suc p show ?thesis by simp
  qed
qed

lemma shard_wide_then_skipped:
  "i < j \<Longrightarrow> j < length ms \<Longrightarrow> rowKey env (ms ! i) = rowKey env (ms ! j) \<Longrightarrow>
   scanOutcomes env cl ms ! i = Classified a \<Longrightarrow> isShardWide (Analysis a) \<Longrightarrow>
   \<not> isClassified (scanOutcomes env cl ms ! j)
   \<and> Analysis (outcomeAnalysis (scanOutcomes env cl ms ! j)) = NoProblem
   \<and> StructureAnalysis (outcomeAnalysis (scanOutcomes env cl ms ! j)) = []"
proof (induction ms arbitrary: cl i j)
  case Nil
  then show ?case by simp
next
  case (Cons m ms)
  obtain cl' out where p: "processRow env cl m = (cl', out)" by (cases "processRow env cl m")
  from Cons.prems(1) obtain j' where j: "j = Suc j'" by (cases j) auto
  show ?case
  proof (cases i)
    case 0
    with Cons.prems p have out: "out = Classified a" by simp
    with processRow_Classified[of env cl m cl' a] p Cons.prems(5)
    have "flagged cl' (rowKey env m)" by simp
    from flagged_scan[OF this, of j' ms env] Cons.prems 0 j p show ?thesis by simp
  next
    case (Suc i')
    from Cons.IH[of i' j' cl'] Cons.prems Suc j p show ?thesis by simp
  qed
qed

text \<open>
  C1. A row that reaches the chain with \<open>is_invalid\<close> set is given the invalid code, whatever
  its other columns and the state of the aggregates: \<open>InvalidPrimary\<close> when it is the
  cluster primary of its shard, \<open>InvalidReplica\<close> otherwise.
\<close>

theorem invalid_takes_precedence:
  assumes "processRow env clusters m = (clusters', Classified a)" and "is_invalid m"
  shows "Analysis a = (if IsClusterPrimary a then InvalidPrimary else InvalidReplica)"
  using processRow_Classified[OF assms(1)] assms(2) by simp

theorem invalid_takes_precedence_witness:
  "is_invalid (replicaRow\<lparr>is_invalid := True\<rparr>)
   \<and> isClassified (snd (processRow exampleEnv Map.empty (replicaRow\<lparr>is_invalid := True\<rparr>)))
   \<and> \<not> IsClusterPrimary (outcomeAnalysis (snd (processRow exampleEnv Map.empty (replicaRow\<lparr>is_invalid := True\<rparr>))))
   \<and> Analysis (outcomeAnalysis (snd (processRow exampleEnv Map.empty (replicaRow\<lparr>is_invalid := True\<rparr>))))
       = InvalidReplica"
proof -
  let ?m = "replicaRow\<lparr>is_invalid := True\<rparr>"
  have c: "isClassified (snd (processRow exampleEnv Map.empty ?m))"
    by (simp add: example_defs pass_defs Let_def)
  then obtain cl' a where p: "processRow exampleEnv Map.empty ?m = (cl', Classified a)"
    by (cases "processRow exampleEnv Map.empty ?m"; cases "snd (processRow exampleEnv Map.empty ?m)") auto
  have inv: "is_invalid ?m" by simp
  have n: "\<not> IsClusterPrimary (outcomeAnalysis (snd (processRow exampleEnv Map.empty ?m)))"
    by (simp add: example_defs pass_defs Let_def)
  from invalid_takes_precedence[OF p inv] n p c inv show ?thesis by simp
qed

text \<open>
  C2. In a pass, once a row of a shard has been given a shard-wide code, no later row of
  the same keyspace and shard is given a shard-wide code.
\<close>

theorem one_shard_wide_code_per_pass:
  assumes "i < j" and "j < length ms"
    and "keyspace (ms ! i) = keyspace (ms ! j)" and "shard (ms ! i) = shard (ms ! j)"
    and "scanOutcomes env Map.empty ms ! i = Classified a" and "isShardWide (Analysis a)"
  shows "\<not> isShardWide (Analysis (outcomeAnalysis (scanOutcomes env Map.empty ms ! j)))"
proof -
  have "rowKey env (ms ! i) = rowKey env (ms ! j)"
    using assms(3,4) by (simp add: rowKey_def)
  from shard_wide_then_skipped[OF assms(1,2) this assms(5,6)]
  show ?thesis by (simp add: isShardWide_def)
qed

theorem one_shard_wide_code_per_pass_witness:
  "(0::nat) < 1 \<and> 1 < length deadPrimaryRows
   \<and> keyspace (deadPrimaryRows ! 0) = keyspace (deadPrimaryRows ! 1)
   \<and> shard (deadPrimaryRows ! 0) = shard (deadPrimaryRows ! 1)
   \<and> isClassified (scanOutcomes exampleEnv Map.empty deadPrimaryRows ! 0)
   \<and> Analysis (outcomeAnalysis (scanOutcomes exampleEnv Map.empty deadPrimaryRows ! 0))
       = DeadPrimaryWithoutReplicas
   \<and> isShardWide DeadPrimaryWithoutReplicas
   \<and> \<not> isShardWide (Analysis (outcomeAnalysis (scanOutcomes exampleEnv Map.empty deadPrimaryRows ! 1)))"
proof -
  have c: "isClassified (scanOutcomes exampleEnv Map.empty deadPrimaryRows ! 0)"
    and d: "Analysis (outcomeAnalysis (scanOutcomes exampleEnv Map.empty deadPrimaryRows ! 0))
       = DeadPrimaryWithoutReplicas"
    by (simp_all add: deadPrimaryRows_def example_defs pass_defs Let_def)
  from c obtain a where a: "scanOutcomes exampleEnv Map.empty deadPrimaryRows ! 0 = Classified a"
    by (cases "scanOutcomes exampleEnv Map.empty deadPrimaryRows ! 0") auto
  have w: "isShardWide DeadPrimaryWithoutReplicas" by (simp add: isShardWide_def)
  with a d have sw: "isShardWide (Analysis a)" by simp
  have l: "(0::nat) < 1" "1 < length deadPrimaryRows"
    "keyspace (deadPrimaryRows ! 0) = keyspace (deadPrimaryRows ! 1)"
    "shard (deadPrimaryRows ! 0) = shard (deadPrimaryRows ! 1)"
    by (simp_all add: deadPrimaryRows_def)
  from one_shard_wide_code_per_pass[OF l a sw] l c d w show ?thesis by simp
qed

lemma processRow_counts:
  assumes "aggregated env m" "cl (rowKey env m) = Some ca" "processRow env cl m = (cl', out)"
  shows "\<exists>ca'. cl' (rowKey env m) = Some ca' \<and> totalTablets ca' = totalTablets ca + 1"
proof -
  from processRow_aggregated[OF assms(1), of cl] assms(3) obtain t pt a where
    ag: "aggregate env cl m t pt a = (cl', out)"
    and a: "AnalyzedKeyspace a = keyspace m" "AnalyzedShard a = shard m"
    by auto
  from assms(2) a have ca: "cl (getKeyspaceShardName env (AnalyzedKeyspace a) (AnalyzedShard a)) = Some ca"
    by (simp add: rowKey_def)
  from ag aggregate_found[where cl=cl and env=env and a=a and ca=ca and m=m and t=t and pt=pt, OF ca]
  have "analyse env cl (getKeyspaceShardName env (AnalyzedKeyspace a) (AnalyzedShard a)) ca m t pt a = (cl', out)"
    by simp
  from analyse_map[OF this] a show ?thesis by (auto simp: rowKey_def)
qed

text \<open>
  C5, as amended. A row whose shard already has its shard-wide action flag set is given no
  classification at all, instance-scoped or shard-wide: the callback returns before the
  chain, the analysis record keeps \<open>NoProblem\<close> and no structure warning, and nothing is
  appended to the results. A row that reaches the aggregation is still counted in
  \<open>totalTablets\<close>.
\<close>

theorem rows_after_shard_wide_action_are_skipped:
  assumes "flagged clusters (rowKey env m)" and "processRow env clusters m = (clusters', out)"
  shows "\<not> isClassified out \<and> Analysis (outcomeAnalysis out) = NoProblem
       \<and> StructureAnalysis (outcomeAnalysis out) = []
       \<and> record_outcome result out = result
       \<and> (aggregated env m \<longrightarrow>
            (\<exists>ca ca'. clusters (rowKey env m) = Some ca \<and> clusters' (rowKey env m) = Some ca'
               \<and> totalTablets ca' = totalTablets ca + 1))"
proof -
  from processRow_flagged[OF assms] have 1: "\<not> isClassified out"
    "Analysis (outcomeAnalysis out) = NoProblem" "StructureAnalysis (outcomeAnalysis out) = []"
    by auto
  from 1(1) have 2: "record_outcome result out = result"
    by (cases out) (auto simp: record_outcome_def)
  from assms(1) obtain ca where ca: "clusters (rowKey env m) = Some ca"
    by (auto simp: flagged_def split: option.splits)
  have 3: "aggregated env m \<longrightarrow>
            (\<exists>ca ca'. clusters (rowKey env m) = Some ca \<and> clusters' (rowKey env m) = Some ca'
               \<and> totalTablets ca' = totalTablets ca + 1)"
    using processRow_counts[OF _ ca assms(2)] ca by blast
  from 1 2 3 show ?thesis by blast
qed

theorem rows_after_shard_wide_action_are_skipped_witness:
  "flagged flaggedShard (rowKey exampleEnv (replicaRow\<lparr>is_invalid := True\<rparr>))
   \<and> aggregated exampleEnv (replicaRow\<lparr>is_invalid := True\<rparr>)
   \<and> \<not> isClassified (snd (processRow exampleEnv flaggedShard (replicaRow\<lparr>is_invalid := True\<rparr>)))
   \<and> Analysis (outcomeAnalysis (snd (processRow exampleEnv flaggedShard (replicaRow\<lparr>is_invalid := True\<rparr>))))
       = NoProblem
   \<and> record_outcome [] (snd (processRow exampleEnv flaggedShard (replicaRow\<lparr>is_invalid := True\<rparr>))) = []
   \<and> map_option totalTablets (flaggedShard ''ks:0'') = Some 1
   \<and> map_option totalTablets
        (fst (processRow exampleEnv flaggedShard (replicaRow\<lparr>is_invalid := True\<rparr>)) ''ks:0'') = Some 2"
proof -
  let ?m = "replicaRow\<lparr>is_invalid := True\<rparr>"
  have f: "flagged flaggedShard (rowKey exampleEnv ?m)"
    by (simp add: flagged_def flaggedShard_def rowKey_def example_defs)
  have g: "aggregated exampleEnv ?m"
    by (simp add: aggregated_def example_defs unmarshalTablet_def)
  have p: "processRow exampleEnv flaggedShard ?m
             = (fst (processRow exampleEnv flaggedShard ?m), snd (processRow exampleEnv flaggedShard ?m))"
    by simp
  have t: "map_option totalTablets (flaggedShard ''ks:0'') = Some 1"
    "map_option totalTablets (fst (processRow exampleEnv flaggedShard ?m) ''ks:0'') = Some 2"
    by (simp_all add: flaggedShard_def example_defs pass_defs Let_def)
  from rows_after_shard_wide_action_are_skipped[OF f p, of "[]"] f g t show ?thesis by simp
qed

text \<open>
  C5 as stated fails: the same never-reached replica row is given \<open>InvalidReplica\<close> after a
  healthy primary, and nothing after a primary whose row set the shard-wide flag.
\<close>

theorem rows_after_shard_wide_action_counterexample:
  "is_invalid (replicaRow\<lparr>is_invalid := True\<rparr>)
   \<and> map Analysis (snd (scanRows exampleEnv Map.empty []
        [primaryRow, replicaRow\<lparr>is_invalid := True\<rparr>])) = [InvalidReplica]
   \<and> map Analysis (snd (scanRows exampleEnv Map.empty []
        [primaryRow\<lparr>is_last_check_valid := False\<rparr>, replicaRow\<lparr>is_invalid := True\<rparr>]))
       = [DeadPrimaryWithoutReplicas]
   \<and> \<not> isClassified (scanOutcomes exampleEnv Map.empty
        [primaryRow\<lparr>is_last_check_valid := False\<rparr>, replicaRow\<lparr>is_invalid := True\<rparr>] ! 1)
   \<and> Analysis (outcomeAnalysis (scanOutcomes exampleEnv Map.empty
        [primaryRow\<lparr>is_last_check_valid := False\<rparr>, replicaRow\<lparr>is_invalid := True\<rparr>] ! 1)) = NoProblem"
  by (simp add: example_defs pass_defs Let_def)

lemma aggregate_total:
  assumes "aggregate env cl m t pt a = (cl', out)"
  shows "\<exists>ca'. cl' = cl(getKeyspaceShardName env (AnalyzedKeyspace a) (AnalyzedShard a) \<mapsto> ca')
     \<and> totalTablets ca' =
         (case cl (getKeyspaceShardName env (AnalyzedKeyspace a) (AnalyzedShard a)) of
            Some ca \<Rightarrow> totalTablets ca + 1
          | None \<Rightarrow> if policyUnresolved env m then 0 else 1)"
proof (cases "cl (getKeyspaceShardName env (AnalyzedKeyspace a) (AnalyzedShard a))")
  case (Some ca)
  with assms have an: "analyse env cl (getKeyspaceShardName env (AnalyzedKeyspace a) (AnalyzedShard a)) ca m t pt a = (cl', out)"
    by (simp add: aggregate_found)
  from analyse_map[OF an] Some show ?thesis by auto
next
  case None
  let ?k = "getKeyspaceShardName env (AnalyzedKeyspace a) (AnalyzedShard a)"
  let ?ca1 = "\<lparr>hasShardWideAction = False, totalTablets = 0,
               primaryAlias = (if TabletType a = PRIMARY then AnalyzedInstanceAlias a else []),
               durability = None\<rparr> :: 'a clusterAnalysis"
  let ?a1 = "if TabletType a = PRIMARY then a\<lparr>IsClusterPrimary := True\<rparr> else a"
  show ?thesis
  proof (cases "policyUnresolved env m")
    case True
    with None assms have "cl' = cl(?k \<mapsto> ?ca1)"
      by (auto simp: policyUnresolved_def aggregate_def Let_def split: if_splits option.splits)
    with None True show ?thesis by auto
  next
    case False
    then obtain d where d: "GetDurabilityPolicy env (durability_policy m) = Some d" "durability_policy m \<noteq> []"
      by (auto simp: policyUnresolved_def)
    with None assms have an: "analyse env (cl(?k \<mapsto> ?ca1\<lparr>durability := Some d\<rparr>)) ?k (?ca1\<lparr>durability := Some d\<rparr>) m t pt ?a1 = (cl', out)"
      by (auto simp: aggregate_def Let_def split: if_splits)
    from analyse_map[OF an] None False show ?thesis by auto
  qed
qed

lemma processRow_total:
  assumes "aggregated env m" "processRow env cl m = (cl', out)"
  shows "\<exists>ca'. cl' = cl(rowKey env m \<mapsto> ca')
     \<and> totalTablets ca' =
         (case cl (rowKey env m) of
            Some ca \<Rightarrow> totalTablets ca + 1
          | None \<Rightarrow> if policyUnresolved env m then 0 else 1)"
proof -
  from processRow_aggregated[OF assms(1), of cl] assms(2) obtain t pt a where
    ag: "aggregate env cl m t pt a = (cl', out)"
    and a: "AnalyzedKeyspace a = keyspace m" "AnalyzedShard a = shard m"
    by auto
  from aggregate_total[OF ag] a show ?thesis by (simp add: rowKey_def)
qed

lemma count_scan:
  "map_option totalTablets (fst (scanRows env cl res ms) k) =
     (case cl k of
        Some ca \<Rightarrow>
          Some (totalTablets ca + int (length (filter (\<lambda>m. aggregated env m \<and> rowKey env m = k) ms)))
      | None \<Rightarrow>
          (case find (\<lambda>m. aggregated env m \<and> rowKey env m = k) ms of
             None \<Rightarrow> None
           | Some m0 \<Rightarrow>
               Some (int (length (filter (\<lambda>m. aggregated env m \<and> rowKey env m = k) ms))
                     - (if policyUnresolved env m0 then 1 else 0))))"
proof (induction ms arbitrary: cl res)
  case Nil
  then show ?case by (simp split: option.splits)
next
  case (Cons m ms)
  obtain cl' out where p: "processRow env cl m = (cl', out)" by (cases "processRow env cl m")
  have s: "scanRows env cl res (m # ms) = scanRows env cl' (record_outcome res out) ms"
    using p by simp
  show ?case
  proof (cases "aggregated env m")
    case False
    from processRow_not_aggregated[OF False p] have "cl' = cl" by simp
    with False s Cons.IH[of cl "record_outcome res out"] show ?thesis
      by (simp cong: option.case_cong)
  next
    case True
    from processRow_total[OF True p] obtain ca' where
      cl': "cl' = cl(rowKey env m \<mapsto> ca')"
      and t: "totalTablets ca' =
         (case cl (rowKey env m) of
            Some ca \<Rightarrow> totalTablets ca + 1
          | None \<Rightarrow> if policyUnresolved env m then 0 else 1)"
      by blast
    show ?thesis
    proof (cases "rowKey env m = k")
      case False
      with cl' have nk: "cl k = cl' k" by simp
      have "map_option totalTablets (fst (scanRows env cl res (m # ms)) k) =
        (case cl k of
           Some ca \<Rightarrow>
             Some (totalTablets ca + int (length (filter (\<lambda>m. aggregated env m \<and> rowKey env m = k) ms)))
         | None \<Rightarrow>
             (case find (\<lambda>m. aggregated env m \<and> rowKey env m = k) ms of
                None \<Rightarrow> None
              | Some m0 \<Rightarrow>
                  Some (int (length (filter (\<lambda>m. aggregated env m \<and> rowKey env m = k) ms))
                        - (if policyUnresolved env m0 then 1 else 0))))"
        unfolding s nk by (rule Cons.IH)
      with False show ?thesis by (simp cong: option.case_cong)
    next
      case k: True
      with cl' have c: "cl' k = Some ca'" by simp
      from Cons.IH[of cl' "record_outcome res out"] c s
      have "map_option totalTablets (fst (scanRows env cl res (m # ms)) k)
            = Some (totalTablets ca' + int (length (filter (\<lambda>m. aggregated env m \<and> rowKey env m = k) ms)))"
        by simp
      with t k True show ?thesis by (simp split: option.splits cong: option.case_cong)
    qed
  qed
qed

text \<open>
  C9, as amended. At the end of a pass the \<open>totalTablets\<close> of a shard is the number of rows
  of the shard that reached the aggregation, duplicates and rows of any role included,
  minus one when the durability policy of the first of them is missing or does not
  resolve: that row creates the aggregate and returns (lines 384 and 389) before the
  increment of line 396. A shard none of whose rows reached the aggregation has no
  aggregate.
\<close>

theorem total_tablets_counts_rows:
  "map_option totalTablets (fst (scanRows env Map.empty [] ms) k) =
     (case find (\<lambda>m. aggregated env m \<and> rowKey env m = k) ms of
        None \<Rightarrow> None
      | Some m0 \<Rightarrow>
          Some (int (length (filter (\<lambda>m. aggregated env m \<and> rowKey env m = k) ms))
                - (if policyUnresolved env m0 then 1 else 0)))"
  by (simp add: count_scan)

theorem total_tablets_counts_rows_witness:
  "find (\<lambda>m. aggregated exampleEnv m \<and> rowKey exampleEnv m = ''ks:0'') unresolvedShardRows
     = Some (primaryRow\<lparr>durability_policy := ''bogus''\<rparr>)
   \<and> policyUnresolved exampleEnv (primaryRow\<lparr>durability_policy := ''bogus''\<rparr>)
   \<and> length (filter (\<lambda>m. aggregated exampleEnv m \<and> rowKey exampleEnv m = ''ks:0'') unresolvedShardRows) = 2
   \<and> map_option totalTablets (fst (scanRows exampleEnv Map.empty [] unresolvedShardRows) ''ks:0'') = Some 1
   \<and> find (\<lambda>m. aggregated exampleEnv m \<and> rowKey exampleEnv m = ''ks:0'') [primaryRow, replicaRow]
     = Some primaryRow
   \<and> \<not> policyUnresolved exampleEnv primaryRow
   \<and> map_option totalTablets (fst (scanRows exampleEnv Map.empty [] [primaryRow, replicaRow]) ''ks:0'') = Some 2"
proof -
  have a: "aggregated exampleEnv (primaryRow\<lparr>durability_policy := ''bogus''\<rparr>)"
    "aggregated exampleEnv (replicaRow\<lparr>durability_policy := ''bogus''\<rparr>)"
    "aggregated exampleEnv primaryRow" "aggregated exampleEnv replicaRow"
    by (simp_all add: aggregated_def example_defs unmarshalTablet_def)
  have k: "rowKey exampleEnv (primaryRow\<lparr>durability_policy := ''bogus''\<rparr>) = ''ks:0''"
    "rowKey exampleEnv (replicaRow\<lparr>durability_policy := ''bogus''\<rparr>) = ''ks:0''"
    "rowKey exampleEnv primaryRow = ''ks:0''" "rowKey exampleEnv replicaRow = ''ks:0''"
    by (simp_all add: rowKey_def example_defs)
  have u: "policyUnresolved exampleEnv (primaryRow\<lparr>durability_policy := ''bogus''\<rparr>)"
    "\<not> policyUnresolved exampleEnv primaryRow"
    by (simp_all add: policyUnresolved_def example_defs)
  from total_tablets_counts_rows[of exampleEnv unresolvedShardRows "''ks:0''"]
    total_tablets_counts_rows[of exampleEnv "[primaryRow, replicaRow]" "''ks:0''"]
    a k u show ?thesis
    by (simp add: unresolvedShardRows_def)
qed

text \<open>
  C9 as stated fails for the first row of a shard whose durability policy is missing or
  does not resolve: a shard with an unset policy and one row ends the pass with
  \<open>totalTablets = 0\<close>, a shard with an unknown policy and two rows with 1; with a known
  policy the two rows count 2.
\<close>

theorem first_row_of_unresolved_shard_not_counted:
  "aggregated exampleEnv (primaryRow\<lparr>durability_policy := []\<rparr>)
   \<and> map_option totalTablets
        (fst (scanRows exampleEnv Map.empty [] [primaryRow\<lparr>durability_policy := []\<rparr>]) ''ks:0'') = Some 0
   \<and> map_option totalTablets
        (fst (scanRows exampleEnv Map.empty []
           [primaryRow\<lparr>durability_policy := ''bogus''\<rparr>, replicaRow\<lparr>durability_policy := ''bogus''\<rparr>]) ''ks:0'')
       = Some 1
   \<and> map_option totalTablets
        (fst (scanRows exampleEnv Map.empty [] [primaryRow, replicaRow]) ''ks:0'') = Some 2"
  by (simp add: aggregated_def example_defs pass_defs Let_def)

text \<open>
  C8. For a row of a replica type that does not report itself a primary and matches no
  earlier branch (it is not invalid, not the cluster primary, has no errant GTID, its shard
  has a primary alias, it is read-only), the chain assigns \<open>ReplicaMisconfigured\<close> exactly
  when the rounded double of the heartbeat interval differs from the net timeout.
\<close>

theorem replica_misconfigured_iff:
  assumes "IsReplicaType env (TabletType a)" and "\<not> IsPrimary a"
    and "\<not> isInvalid" and "\<not> IsClusterPrimary a" and "ErrantGTID a = []" and "pa \<noteq> []"
    and "IsReadOnly a" and "Analysis a = NoProblem"
  shows "Analysis (fst (classify env d pa tablet primaryTablet isInvalid stale a)) = ReplicaMisconfigured
         \<longleftrightarrow> math_Round (HeartbeatInterval a * 2) \<noteq> of_int (ReplicaNetTimeout a)"
  using assms by (simp add: classify_def analysisChain_def)

theorem replica_misconfigured_iff_witness:
  "IsReplicaType exampleEnv (TabletType (replicaAnalysis 2 4)) \<and> \<not> IsPrimary (replicaAnalysis 2 4)
   \<and> \<not> IsClusterPrimary (replicaAnalysis 2 4) \<and> ErrantGTID (replicaAnalysis 2 4) = []
   \<and> IsReadOnly (replicaAnalysis 2 4) \<and> Analysis (replicaAnalysis 2 4) = NoProblem
   \<and> math_Round (HeartbeatInterval (replicaAnalysis 2 4) * 2) = of_int (ReplicaNetTimeout (replicaAnalysis 2 4))
   \<and> Analysis (fst (classify exampleEnv 0 ''zone1'' (replicaTabletOf ''zone2'') (primaryTabletOf ''zone1'')
        False False (replicaAnalysis 2 4))) \<noteq> ReplicaMisconfigured
   \<and> math_Round (HeartbeatInterval (replicaAnalysis 2 5) * 2) \<noteq> of_int (ReplicaNetTimeout (replicaAnalysis 2 5))
   \<and> Analysis (fst (classify exampleEnv 0 ''zone1'' (replicaTabletOf ''zone2'') (primaryTabletOf ''zone1'')
        False False (replicaAnalysis 2 5))) = ReplicaMisconfigured
   \<and> map Analysis (snd (scanRows exampleEnv Map.empty [] [primaryRow, replicaRow])) = []
   \<and> map Analysis (snd (scanRows exampleEnv Map.empty []
        [primaryRow, replicaRow\<lparr>replica_net_timeout := 5\<rparr>])) = [ReplicaMisconfigured]"
proof -
  have h4: "IsReplicaType exampleEnv (TabletType (replicaAnalysis 2 4))" "\<not> IsPrimary (replicaAnalysis 2 4)"
    "\<not> False" "\<not> IsClusterPrimary (replicaAnalysis 2 4)" "ErrantGTID (replicaAnalysis 2 4) = []"
    "''zone1'' \<noteq> []" "IsReadOnly (replicaAnalysis 2 4)" "Analysis (replicaAnalysis 2 4) = NoProblem"
    by (simp_all add: replicaAnalysis_def emptyAnalysis_def exampleEnv_def)
  have h5: "IsReplicaType exampleEnv (TabletType (replicaAnalysis 2 5))" "\<not> IsPrimary (replicaAnalysis 2 5)"
    "\<not> False" "\<not> IsClusterPrimary (replicaAnalysis 2 5)" "ErrantGTID (replicaAnalysis 2 5) = []"
    "''zone1'' \<noteq> []" "IsReadOnly (replicaAnalysis 2 5)" "Analysis (replicaAnalysis 2 5) = NoProblem"
    by (simp_all add: replicaAnalysis_def emptyAnalysis_def exampleEnv_def)
  have r: "math_Round (HeartbeatInterval (replicaAnalysis 2 4) * 2) = of_int (ReplicaNetTimeout (replicaAnalysis 2 4))"
    "math_Round (HeartbeatInterval (replicaAnalysis 2 5) * 2) \<noteq> of_int (ReplicaNetTimeout (replicaAnalysis 2 5))"
    by (simp_all add: replicaAnalysis_def emptyAnalysis_def math_Round_def)
  have e: "map Analysis (snd (scanRows exampleEnv Map.empty [] [primaryRow, replicaRow])) = []"
    "map Analysis (snd (scanRows exampleEnv Map.empty []
        [primaryRow, replicaRow\<lparr>replica_net_timeout := 5\<rparr>])) = [ReplicaMisconfigured]"
    by (simp_all add: example_defs pass_defs Let_def)
  from replica_misconfigured_iff[OF h4, where d="0::nat" and tablet="replicaTabletOf ''zone2''"
           and primaryTablet="primaryTabletOf ''zone1''" and stale=False]
       replica_misconfigured_iff[OF h5, where d="0::nat" and tablet="replicaTabletOf ''zone2''"
           and primaryTablet="primaryTabletOf ''zone1''" and stale=False]
       h4 h5 r e
  show ?thesis by simp
qed

lemma clusterPrimary_scan:
  "j < length ms \<Longrightarrow> IsClusterPrimary (outcomeAnalysis (scanOutcomes env cl ms ! j)) \<Longrightarrow>
   TabletType (outcomeAnalysis (scanOutcomes env cl ms ! j)) = PRIMARY
   \<and> aggregated env (ms ! j) \<and> cl (rowKey env (ms ! j)) = None
   \<and> (\<forall>i<j. aggregated env (ms ! i) \<longrightarrow> rowKey env (ms ! i) \<noteq> rowKey env (ms ! j))"
proof (induction ms arbitrary: cl j)
  case Nil
  then show ?case by simp
next
  case (Cons m ms)
  obtain cl' out where p: "processRow env cl m = (cl', out)" by (cases "processRow env cl m")
  note eff = processRow_effect[OF p]
  show ?case
  proof (cases j)
    case 0
    with Cons.prems p have "IsClusterPrimary (outcomeAnalysis out)" by simp
    with eff 0 show ?thesis
      by (auto simp: p split: if_splits option.splits)
  next
    case (Suc j')
    with Cons.prems p have j': "j' < length ms"
      and cp: "IsClusterPrimary (outcomeAnalysis (scanOutcomes env cl' ms ! j'))" by simp_all
    from Cons.IH[OF j' cp] have ih:
      "TabletType (outcomeAnalysis (scanOutcomes env cl' ms ! j')) = PRIMARY"
      "aggregated env (ms ! j')" "cl' (rowKey env (ms ! j')) = None"
      "\<forall>i<j'. aggregated env (ms ! i) \<longrightarrow> rowKey env (ms ! i) \<noteq> rowKey env (ms ! j')"
      by auto
    from eff ih(3) have old: "cl (rowKey env (ms ! j')) = None"
      and first: "aggregated env m \<longrightarrow> rowKey env m \<noteq> rowKey env (ms ! j')"
      by (auto split: if_splits)
    have "\<forall>i<j. aggregated env ((m # ms) ! i) \<longrightarrow> rowKey env ((m # ms) ! i) \<noteq> rowKey env ((m # ms) ! j)"
    proof (intro allI impI)
      fix i assume "i < j" "aggregated env ((m # ms) ! i)"
      then show "rowKey env ((m # ms) ! i) \<noteq> rowKey env ((m # ms) ! j)"
        using first ih(4) Suc by (cases i) auto
    qed
    with ih old Suc p show ?thesis by simp
  qed
qed

lemma primaryAlias_kept:
  "cl k = Some ca \<Longrightarrow>
   \<exists>ca'. fst (scanRows env cl res ms) k = Some ca' \<and> primaryAlias ca' = primaryAlias ca"
proof (induction ms arbitrary: cl res ca)
  case Nil
  then show ?case by simp
next
  case (Cons m ms)
  obtain cl' out where p: "processRow env cl m = (cl', out)" by (cases "processRow env cl m")
  from processRow_effect[OF p] Cons.prems
  obtain ca1 where "cl' k = Some ca1" "primaryAlias ca1 = primaryAlias ca"
    by (cases "rowKey env m = k") (auto split: if_splits)
  from Cons.IH[where cl=cl' and ca=ca1 and res="record_outcome res out", OF this(1)] this(2) p
  show ?case by simp
qed

lemma primaryAlias_first:
  "i < length ms \<Longrightarrow> aggregated env (ms ! i) \<Longrightarrow> rowKey env (ms ! i) = k \<Longrightarrow>
   \<forall>i'<i. aggregated env (ms ! i') \<longrightarrow> rowKey env (ms ! i') \<noteq> k \<Longrightarrow> cl k = None \<Longrightarrow>
   \<exists>ca. fst (scanRows env cl res ms) k = Some ca
     \<and> primaryAlias ca =
         (if TabletType (outcomeAnalysis (scanOutcomes env cl ms ! i)) = PRIMARY
          then AnalyzedInstanceAlias (outcomeAnalysis (scanOutcomes env cl ms ! i)) else [])
     \<and> IsClusterPrimary (outcomeAnalysis (scanOutcomes env cl ms ! i))
         = (TabletType (outcomeAnalysis (scanOutcomes env cl ms ! i)) = PRIMARY)"
proof (induction ms arbitrary: cl res i)
  case Nil
  then show ?case by simp
next
  case (Cons m ms)
  obtain cl' out where p: "processRow env cl m = (cl', out)" by (cases "processRow env cl m")
  note eff = processRow_effect[OF p]
  show ?case
  proof (cases i)
    case 0
    with Cons.prems have ag: "aggregated env m" and k: "rowKey env m = k" by simp_all
    from eff ag k Cons.prems(5) obtain ca1 where ca1: "cl' k = Some ca1"
      "primaryAlias ca1 = (if TabletType (outcomeAnalysis out) = PRIMARY
                           then AnalyzedInstanceAlias (outcomeAnalysis out) else [])"
      "IsClusterPrimary (outcomeAnalysis out) = (TabletType (outcomeAnalysis out) = PRIMARY)"
      by auto
    from primaryAlias_kept[where cl=cl' and k=k and ca=ca1 and env=env
           and res="record_outcome res out" and ms=ms, OF ca1(1)] ca1 0 p
    show ?thesis by auto
  next
    case (Suc i')
    from Cons.prems(4) Suc have "aggregated env m \<longrightarrow> rowKey env m \<noteq> k" by auto
    with eff Cons.prems(5) have none: "cl' k = None" by (auto split: if_splits)
    have rest: "\<forall>i''<i'. aggregated env (ms ! i'') \<longrightarrow> rowKey env (ms ! i'') \<noteq> k"
      using Cons.prems(4) Suc by auto
    from Cons.IH[where cl=cl' and i=i' and res="record_outcome res out", OF _ _ _ rest none]
      Cons.prems(1,2,3) Suc p
    show ?thesis by auto
  qed
qed

text \<open>
  C10. In a pass, a row marked as the cluster primary is of type PRIMARY and is the first row
  of its shard to reach the aggregation; so no two rows of one shard are marked; and the
  \<open>primaryAlias\<close> of a shard at the end of the pass is the alias of that first row when it
  is of type PRIMARY, and empty otherwise, whatever rows follow.
\<close>

theorem cluster_primary_is_first_row_of_shard:
  "(\<forall>j<length ms. IsClusterPrimary (outcomeAnalysis (scanOutcomes env Map.empty ms ! j)) \<longrightarrow>
       TabletType (outcomeAnalysis (scanOutcomes env Map.empty ms ! j)) = PRIMARY
       \<and> aggregated env (ms ! j)
       \<and> (\<forall>i<j. aggregated env (ms ! i) \<longrightarrow> rowKey env (ms ! i) \<noteq> rowKey env (ms ! j)))
   \<and> (\<forall>i<length ms. \<forall>j<length ms. i < j
       \<and> IsClusterPrimary (outcomeAnalysis (scanOutcomes env Map.empty ms ! i))
       \<and> IsClusterPrimary (outcomeAnalysis (scanOutcomes env Map.empty ms ! j))
       \<longrightarrow> rowKey env (ms ! i) \<noteq> rowKey env (ms ! j))
   \<and> (\<forall>i<length ms. aggregated env (ms ! i)
        \<and> (\<forall>i'<i. aggregated env (ms ! i') \<longrightarrow> rowKey env (ms ! i') \<noteq> rowKey env (ms ! i))
       \<longrightarrow> (\<exists>ca. fst (scanRows env Map.empty [] ms) (rowKey env (ms ! i)) = Some ca
             \<and> primaryAlias ca =
                 (if TabletType (outcomeAnalysis (scanOutcomes env Map.empty ms ! i)) = PRIMARY
                  then AnalyzedInstanceAlias (outcomeAnalysis (scanOutcomes env Map.empty ms ! i))
                  else [])))"
proof (intro conjI allI impI)
  fix j assume "j < length ms" "IsClusterPrimary (outcomeAnalysis (scanOutcomes env Map.empty ms ! j))"
  from clusterPrimary_scan[OF this]
  show "TabletType (outcomeAnalysis (scanOutcomes env Map.empty ms ! j)) = PRIMARY"
    "aggregated env (ms ! j)"
    "\<And>i. i < j \<Longrightarrow> aggregated env (ms ! i) \<Longrightarrow> rowKey env (ms ! i) \<noteq> rowKey env (ms ! j)"
    by auto
next
  fix i j assume "i < length ms" "j < length ms"
    and h: "i < j \<and> IsClusterPrimary (outcomeAnalysis (scanOutcomes env Map.empty ms ! i))
       \<and> IsClusterPrimary (outcomeAnalysis (scanOutcomes env Map.empty ms ! j))"
  from clusterPrimary_scan[where cl=Map.empty and env=env, OF \<open>i < length ms\<close>] h have "aggregated env (ms ! i)" by simp
  with clusterPrimary_scan[where cl=Map.empty and env=env, OF \<open>j < length ms\<close>] h
  show "rowKey env (ms ! i) \<noteq> rowKey env (ms ! j)" by blast
next
  fix i assume "i < length ms"
    and h: "aggregated env (ms ! i)
        \<and> (\<forall>i'<i. aggregated env (ms ! i') \<longrightarrow> rowKey env (ms ! i') \<noteq> rowKey env (ms ! i))"
  from primaryAlias_first[where cl=Map.empty and k="rowKey env (ms ! i)" and env=env and res="[]",
         OF \<open>i < length ms\<close>] h
  show "\<exists>ca. fst (scanRows env Map.empty [] ms) (rowKey env (ms ! i)) = Some ca
             \<and> primaryAlias ca =
                 (if TabletType (outcomeAnalysis (scanOutcomes env Map.empty ms ! i)) = PRIMARY
                  then AnalyzedInstanceAlias (outcomeAnalysis (scanOutcomes env Map.empty ms ! i))
                  else [])"
    by auto
qed

theorem cluster_primary_is_first_row_of_shard_witness:
  "IsClusterPrimary (outcomeAnalysis (scanOutcomes exampleEnv Map.empty [primaryRow, replicaRow] ! 0))
   \<and> TabletType (outcomeAnalysis (scanOutcomes exampleEnv Map.empty [primaryRow, replicaRow] ! 0)) = PRIMARY
   \<and> aggregated exampleEnv ([primaryRow, replicaRow] ! 0)
   \<and> map_option primaryAlias (fst (scanRows exampleEnv Map.empty [] [primaryRow, replicaRow]) ''ks:0'')
       = Some ''zone1''
   \<and> aggregated exampleEnv (replicaFirstRows ! 0) \<and> aggregated exampleEnv (replicaFirstRows ! 1)
   \<and> rowKey exampleEnv (replicaFirstRows ! 0) = rowKey exampleEnv (replicaFirstRows ! 1)
   \<and> TabletType (outcomeAnalysis (scanOutcomes exampleEnv Map.empty replicaFirstRows ! 1)) = PRIMARY
   \<and> \<not> IsClusterPrimary (outcomeAnalysis (scanOutcomes exampleEnv Map.empty replicaFirstRows ! 1))
   \<and> map_option primaryAlias (fst (scanRows exampleEnv Map.empty [] replicaFirstRows) ''ks:0'') = Some []"
proof -
  have a: "aggregated exampleEnv ([primaryRow, replicaRow] ! 0)"
    "aggregated exampleEnv (replicaFirstRows ! 0)" "aggregated exampleEnv (replicaFirstRows ! 1)"
    "rowKey exampleEnv (replicaFirstRows ! 0) = rowKey exampleEnv (replicaFirstRows ! 1)"
    by (simp_all add: replicaFirstRows_def aggregated_def rowKey_def example_defs unmarshalTablet_def)
  have b: "IsClusterPrimary (outcomeAnalysis (scanOutcomes exampleEnv Map.empty [primaryRow, replicaRow] ! 0))"
    "TabletType (outcomeAnalysis (scanOutcomes exampleEnv Map.empty [primaryRow, replicaRow] ! 0)) = PRIMARY"
    "map_option primaryAlias (fst (scanRows exampleEnv Map.empty [] [primaryRow, replicaRow]) ''ks:0'')
       = Some ''zone1''"
    by (simp_all add: example_defs pass_defs Let_def)
  have c: "TabletType (outcomeAnalysis (scanOutcomes exampleEnv Map.empty replicaFirstRows ! 1)) = PRIMARY"
    "map_option primaryAlias (fst (scanRows exampleEnv Map.empty [] replicaFirstRows) ''ks:0'') = Some []"
    by (simp_all add: replicaFirstRows_def example_defs pass_defs Let_def)
  have l: "(1::nat) < length replicaFirstRows" "(0::nat) < 1" by (simp_all add: replicaFirstRows_def)
  from cluster_primary_is_first_row_of_shard[of replicaFirstRows exampleEnv] l a
  have "\<not> IsClusterPrimary (outcomeAnalysis (scanOutcomes exampleEnv Map.empty replicaFirstRows ! 1))"
    by blast
  with a b c show ?thesis by simp
qed

section \<open>Properties of the reconciliation\<close>

lemma findDeadPrimary_Some':
  assumes "findDeadPrimary env clusters result 0 result = Inr (Some (i, idxs))"
  shows "i < length result" "Analysis (result ! i) = InvalidPrimary"
    "allOthersDown env clusters result (result ! i)"
    "idxs = notReplicatingReplicas env (AnalyzedKeyspace (result ! i)) (AnalyzedShard (result ! i)) 0 result"
  using findDeadPrimary_Some[OF assms]
  by (auto simp: allOthersDown_def length_notReplicatingReplicas)

lemma findDeadPrimary_None:
  "findDeadPrimary env clusters result i rest = Inr None \<Longrightarrow> p \<in> set rest \<Longrightarrow>
   Analysis p = InvalidPrimary \<Longrightarrow> \<not> allOthersDown env clusters result p"
  by (induction rest arbitrary: i)
     (auto simp: Let_def allOthersDown_def length_notReplicatingReplicas split: if_splits option.splits)

lemma postProcessAnalyses_step:
  assumes f: "findDeadPrimary env clusters result 0 result = Inr (Some (i, idxs))"
  shows "postProcessAnalyses env result clusters
     = postProcessAnalyses env
         (filter (\<lambda>r. \<not> notReplicating env (AnalyzedKeyspace (result ! i)) (AnalyzedShard (result ! i)) r)
            (result[i := (result ! i)\<lparr>Analysis := DeadPrimary\<rparr>]))
         clusters"
proof -
  have "postProcessAnalyses env result clusters
      = postProcessAnalyses env
          (removeIndexes (rev idxs) (result[i := (result ! i)\<lparr>Analysis := DeadPrimary\<rparr>])) clusters"
    by (subst postProcessAnalyses.simps) (simp add: f)
  also have "removeIndexes (rev idxs) (result[i := (result ! i)\<lparr>Analysis := DeadPrimary\<rparr>])
      = filter (\<lambda>r. \<not> notReplicating env (AnalyzedKeyspace (result ! i)) (AnalyzedShard (result ! i)) r)
          (result[i := (result ! i)\<lparr>Analysis := DeadPrimary\<rparr>])"
    unfolding findDeadPrimary_Some'(4)[OF f] by (rule reconcile_step)
  finally show ?thesis .
qed

lemma postProcessAnalyses_fixpoint:
  "postProcessAnalyses env result clusters = Inr out \<Longrightarrow>
   findDeadPrimary env clusters out 0 out = Inr None"
proof (induction env result clusters rule: postProcessAnalyses.induct)
  case (1 env result clusters)
  show ?case
  proof (cases "findDeadPrimary env clusters result 0 result")
    case (Inl p)
    with "1.prems" show ?thesis by (simp add: postProcessAnalyses.simps[of env result])
  next
    case (Inr found)
    show ?thesis
    proof (cases found)
      case None
      with Inr "1.prems" show ?thesis by (simp add: postProcessAnalyses.simps[of env result])
    next
      case (Some pr)
      obtain i idxs where pr: "pr = (i, idxs)" by (cases pr)
      from "1.prems" Inr Some pr have
        "postProcessAnalyses env (removeIndexes (rev idxs) (result[i := (result ! i)\<lparr>Analysis := DeadPrimary\<rparr>])) clusters = Inr out"
        by (simp add: postProcessAnalyses.simps[of env result])
      from "1.IH"[OF Inr Some pr[symmetric] this] show ?thesis .
    qed
  qed
qed

text \<open>
  C7. The reconciliation is idempotent: applied to its own output, with the same aggregates,
  it returns that output unchanged.
\<close>

theorem reconciler_idempotent:
  assumes "postProcessAnalyses env result clusters = Inr out"
  shows "postProcessAnalyses env out clusters = Inr out"
  using postProcessAnalyses_fixpoint[OF assms]
  by (simp add: postProcessAnalyses.simps[of env out])

lemma example_reconcile:
  "postProcessAnalyses exampleEnv [invalidPrimaryAnalysis, stoppedReplicaAnalysis] (shardOfSize 2)
     = Inr [invalidPrimaryAnalysis\<lparr>Analysis := DeadPrimary\<rparr>]"
  by (simp add: postProcessAnalyses.simps reconcile_defs Let_def)

lemma example_reconcile_healthy:
  "postProcessAnalyses exampleEnv [invalidPrimaryAnalysis, stoppedReplicaAnalysis] (shardOfSize 3)
     = Inr [invalidPrimaryAnalysis, stoppedReplicaAnalysis]"
  by (simp add: postProcessAnalyses.simps reconcile_defs Let_def)

theorem reconciler_idempotent_witness:
  "postProcessAnalyses exampleEnv [invalidPrimaryAnalysis, stoppedReplicaAnalysis] (shardOfSize 2)
     = Inr [invalidPrimaryAnalysis\<lparr>Analysis := DeadPrimary\<rparr>]
   \<and> postProcessAnalyses exampleEnv [invalidPrimaryAnalysis\<lparr>Analysis := DeadPrimary\<rparr>] (shardOfSize 2)
     = Inr [invalidPrimaryAnalysis\<lparr>Analysis := DeadPrimary\<rparr>]"
  using reconciler_idempotent[OF example_reconcile] example_reconcile by simp

lemma in_set_update_other:
  "x \<in> set xs \<Longrightarrow> i < length xs \<Longrightarrow> x \<noteq> xs ! i \<Longrightarrow> x \<in> set (xs[i := y])"
  by (metis in_set_conv_nth length_list_update nth_list_update_neq)

lemma set_update_cases:
  "q \<in> set (xs[i := y]) \<Longrightarrow> q \<in> set xs \<or> q = y"
  using set_update_subset_insert[of xs i y] by auto

lemma count_notReplicating_update:
  "length (filter (notReplicating env ks sh) (result[i := (result ! i)\<lparr>Analysis := c\<rparr>]))
     = length (filter (notReplicating env ks sh) result)"
proof -
  have "map (notReplicating env ks sh) (result[i := (result ! i)\<lparr>Analysis := c\<rparr>])
      = map (notReplicating env ks sh) result"
    by (cases "i < length result") (auto simp: list_eq_iff_nth_eq nth_list_update)
  then have "length (filter id (map (notReplicating env ks sh) (result[i := (result ! i)\<lparr>Analysis := c\<rparr>])))
      = length (filter id (map (notReplicating env ks sh) result))"
    by simp
  then show ?thesis by (simp add: filter_map comp_def)
qed

lemma upgrade_invariant:
  assumes "postProcessAnalyses env result clusters = Inr out"
    and "Analysis p = InvalidPrimary"
    and "\<not> IsReplicaType env (TabletType p)"
    and "(p \<in> set result \<and> allOthersDown env clusters result p
          \<and> (\<forall>q\<in>set result. Analysis q = InvalidPrimary \<and> AnalyzedKeyspace q = AnalyzedKeyspace p
                \<and> AnalyzedShard q = AnalyzedShard p \<longrightarrow> q = p))
       \<or> (p\<lparr>Analysis := DeadPrimary\<rparr> \<in> set result
          \<and> (\<forall>q\<in>set result. \<not> notReplicating env (AnalyzedKeyspace p) (AnalyzedShard p) q))"
  shows "p\<lparr>Analysis := DeadPrimary\<rparr> \<in> set out
       \<and> (\<forall>q\<in>set out. \<not> notReplicating env (AnalyzedKeyspace p) (AnalyzedShard p) q)"
  using assms
proof (induction env result clusters rule: postProcessAnalyses.induct)
  case (1 env result clusters)
  let ?ks = "AnalyzedKeyspace p" and ?sh = "AnalyzedShard p"
  let ?pd = "p\<lparr>Analysis := DeadPrimary\<rparr>"
  have pd_keep: "\<not> notReplicating env ks' sh' ?pd" for ks' sh'
    using "1.prems"(3) by (simp add: notReplicating_def)
  have p_keep: "\<not> notReplicating env ks' sh' p" for ks' sh'
    using "1.prems"(3) by (simp add: notReplicating_def)
  show ?case
  proof (cases "findDeadPrimary env clusters result 0 result")
    case (Inl e)
    with "1.prems"(1) show ?thesis by (simp add: postProcessAnalyses.simps[of env result])
  next
    case (Inr found)
    show ?thesis
    proof (cases found)
      case None
      with Inr "1.prems"(1) have out: "out = result"
        by (simp add: postProcessAnalyses.simps[of env result])
      from Inr None have "findDeadPrimary env clusters result 0 result = Inr None" by simp
      from findDeadPrimary_None[OF this _ "1.prems"(2)]
      have "p \<in> set result \<Longrightarrow> \<not> allOthersDown env clusters result p" by simp
      with "1.prems"(4) out show ?thesis by blast
    next
      case (Some pr)
      obtain i idxs where pr: "pr = (i, idxs)" by (cases pr)
      from Inr Some pr have f: "findDeadPrimary env clusters result 0 result = Inr (Some (i, idxs))" by simp
      note fs = findDeadPrimary_Some'[OF f]
      let ?r = "result ! i"
      let ?ks' = "AnalyzedKeyspace ?r" and ?sh' = "AnalyzedShard ?r"
      let ?upd = "result[i := ?r\<lparr>Analysis := DeadPrimary\<rparr>]"
      let ?res' = "filter (\<lambda>r. \<not> notReplicating env ?ks' ?sh' r) ?upd"
      have res': "removeIndexes (rev idxs) ?upd = ?res'"
        unfolding fs(4) by (rule reconcile_step)
      from "1.prems"(1) f have out': "postProcessAnalyses env ?res' clusters = Inr out"
        by (simp add: postProcessAnalyses_step)
      have r_in: "?r \<in> set result" using fs(1) by simp
      have inv': "(p \<in> set ?res' \<and> allOthersDown env clusters ?res' p
          \<and> (\<forall>q\<in>set ?res'. Analysis q = InvalidPrimary \<and> AnalyzedKeyspace q = ?ks
                \<and> AnalyzedShard q = ?sh \<longrightarrow> q = p))
       \<or> (?pd \<in> set ?res' \<and> (\<forall>q\<in>set ?res'. \<not> notReplicating env ?ks ?sh q))"
      proof -
        from "1.prems"(4) show ?thesis
        proof
          assume A: "p \<in> set result \<and> allOthersDown env clusters result p
              \<and> (\<forall>q\<in>set result. Analysis q = InvalidPrimary \<and> AnalyzedKeyspace q = ?ks
                    \<and> AnalyzedShard q = ?sh \<longrightarrow> q = p)"
          show ?thesis
          proof (cases "?ks' = ?ks \<and> ?sh' = ?sh")
            case True
            with A r_in fs(2) have rp: "?r = p" by blast
            have "?pd \<in> set ?upd" using fs(1) rp by (simp add: set_update_memI)
            then have "?pd \<in> set ?res'" using pd_keep by simp
            moreover have "\<forall>q\<in>set ?res'. \<not> notReplicating env ?ks ?sh q" using True by simp
            ultimately show ?thesis by blast
          next
            case False
            then have diff: "notReplicating env ?ks ?sh q \<Longrightarrow> \<not> notReplicating env ?ks' ?sh' q" for q
              by (auto simp: notReplicating_def)
            from False have "p \<noteq> ?r" by auto
            with A fs(1) have "p \<in> set ?upd" by (simp add: in_set_update_other)
            then have 1: "p \<in> set ?res'" using p_keep by simp
            have "filter (notReplicating env ?ks ?sh) ?res' = filter (notReplicating env ?ks ?sh) ?upd"
              using diff by (auto simp: filter_filter intro: filter_cong)
            then have "length (filter (notReplicating env ?ks ?sh) ?res')
                = length (filter (notReplicating env ?ks ?sh) result)"
              by (simp add: count_notReplicating_update)
            with A have 2: "allOthersDown env clusters ?res' p"
              by (simp add: allOthersDown_def split: option.splits)
            have 3: "\<forall>q\<in>set ?res'. Analysis q = InvalidPrimary \<and> AnalyzedKeyspace q = ?ks
                \<and> AnalyzedShard q = ?sh \<longrightarrow> q = p"
            proof (intro ballI impI)
              fix q assume q: "q \<in> set ?res'" and qq: "Analysis q = InvalidPrimary \<and> AnalyzedKeyspace q = ?ks
                \<and> AnalyzedShard q = ?sh"
              from q have "q \<in> set ?upd" by simp
              from set_update_cases[OF this] qq have "q \<in> set result" by auto
              with A qq show "q = p" by blast
            qed
            from 1 2 3 show ?thesis by blast
          qed
        next
          assume B: "?pd \<in> set result \<and> (\<forall>q\<in>set result. \<not> notReplicating env ?ks ?sh q)"
          have "Analysis ?pd \<noteq> Analysis ?r" using fs(2) by simp
          then have "?pd \<noteq> ?r" by metis
          with B fs(1) have "?pd \<in> set ?upd" by (simp add: in_set_update_other)
          then have 1: "?pd \<in> set ?res'" using pd_keep by simp
          have 2: "\<forall>q\<in>set ?res'. \<not> notReplicating env ?ks ?sh q"
          proof
            fix q assume "q \<in> set ?res'"
            then have "q \<in> set ?upd" by simp
            from set_update_cases[OF this] B r_in show "\<not> notReplicating env ?ks ?sh q" by auto
          qed
          from 1 2 show ?thesis by blast
        qed
      qed
      have "postProcessAnalyses env (removeIndexes (rev idxs) ?upd) clusters = Inr out"
        using out' res' by simp
      from "1.IH"[OF Inr Some pr[symmetric] this "1.prems"(2,3)] inv' res'
      show ?thesis by simp
    qed
  qed
qed

lemma postProcessAnalyses_rounds:
  assumes "postProcessAnalyses env result clusters = Inr out"
    and stop: "findDeadPrimary env clusters out 0 out = Inr None \<Longrightarrow> P out"
    and round: "\<And>result i. i < length result \<Longrightarrow> Analysis (result ! i) = InvalidPrimary \<Longrightarrow>
        allOthersDown env clusters result (result ! i) \<Longrightarrow>
        P (filter (\<lambda>r. \<not> notReplicating env (AnalyzedKeyspace (result ! i)) (AnalyzedShard (result ! i)) r)
             (result[i := (result ! i)\<lparr>Analysis := DeadPrimary\<rparr>])) \<Longrightarrow>
        P result"
  shows "P result"
  using assms
proof (induction env result clusters rule: postProcessAnalyses.induct)
  case (1 env' result clusters')
  show ?case
  proof (cases "findDeadPrimary env' clusters' result 0 result")
    case (Inl e)
    with "1.prems" show ?thesis by (simp add: postProcessAnalyses.simps[of env' result])
  next
    case (Inr found)
    show ?thesis
    proof (cases found)
      case None
      with Inr "1.prems"(1) have "out = result" by (simp add: postProcessAnalyses.simps[of env' result])
      with Inr None "1.prems"(2) show ?thesis by simp
    next
      case (Some pr)
      obtain i idxs where pr: "pr = (i, idxs)" by (cases pr)
      from Inr Some pr have f: "findDeadPrimary env' clusters' result 0 result = Inr (Some (i, idxs))" by simp
      note fs = findDeadPrimary_Some'[OF f]
      let ?upd = "result[i := (result ! i)\<lparr>Analysis := DeadPrimary\<rparr>]"
      have res': "removeIndexes (rev idxs) ?upd
          = filter (\<lambda>r. \<not> notReplicating env' (AnalyzedKeyspace (result ! i)) (AnalyzedShard (result ! i)) r) ?upd"
        unfolding fs(4) by (rule reconcile_step)
      from "1.prems"(1) f have "postProcessAnalyses env' (removeIndexes (rev idxs) ?upd) clusters' = Inr out"
        by (simp add: postProcessAnalyses.simps[of env' result])
      from "1.IH"[OF Inr Some pr[symmetric] this "1.prems"(2)] "1.prems"(3) res'
      have "P (filter (\<lambda>r. \<not> notReplicating env' (AnalyzedKeyspace (result ! i)) (AnalyzedShard (result ! i)) r) ?upd)"
        by simp
      from "1.prems"(3)[OF fs(1) fs(2) fs(3) this] show ?thesis .
    qed
  qed
qed


lemma filter_update_outside:
  "i < length xs \<Longrightarrow> \<not> P (xs ! i) \<Longrightarrow> \<not> P y \<Longrightarrow> filter P (xs[i := y]) = filter P xs"
proof (induction xs arbitrary: i)
  case Nil
  then show ?case by simp
next
  case (Cons x xs)
  then show ?case by (cases i) auto
qed

lemma count_after_round:
  assumes "i < length result"
  shows "length (filter (notReplicating env ks sh)
           (filter (\<lambda>r. \<not> notReplicating env ks' sh' r) (result[i := (result ! i)\<lparr>Analysis := DeadPrimary\<rparr>])))
         = (if ks = ks' \<and> sh = sh' then 0 else length (filter (notReplicating env ks sh) result))"
proof (cases "ks = ks' \<and> sh = sh'")
  case True
  then show ?thesis by (simp add: filter_empty_conv)
next
  case False
  then have "notReplicating env ks sh q \<Longrightarrow> \<not> notReplicating env ks' sh' q" for q
    by (auto simp: notReplicating_def)
  then have "filter (notReplicating env ks sh)
           (filter (\<lambda>r. \<not> notReplicating env ks' sh' r) (result[i := (result ! i)\<lparr>Analysis := DeadPrimary\<rparr>]))
      = filter (notReplicating env ks sh) (result[i := (result ! i)\<lparr>Analysis := DeadPrimary\<rparr>])"
    by (auto simp: filter_filter intro: filter_cong)
  with False show ?thesis by (auto simp: count_notReplicating_update)
qed

lemma allOthersDown_after_round:
  assumes "i < length result"
    and "allOthersDown env clusters
           (filter (\<lambda>r. \<not> notReplicating env ks' sh' r) (result[i := (result ! i)\<lparr>Analysis := DeadPrimary\<rparr>])) p"
  shows "allOthersDown env clusters result p \<and> \<not> (AnalyzedKeyspace p = ks' \<and> AnalyzedShard p = sh')"
  using assms(2) count_after_round[OF assms(1), of env "AnalyzedKeyspace p" "AnalyzedShard p" ks' sh']
  by (auto simp: allOthersDown_def split: option.splits if_splits)

lemma allOthersDown_before_round:
  assumes "i < length result" and "allOthersDown env clusters result p"
    and "\<not> (AnalyzedKeyspace p = ks' \<and> AnalyzedShard p = sh')"
  shows "allOthersDown env clusters
           (filter (\<lambda>r. \<not> notReplicating env ks' sh' r) (result[i := (result ! i)\<lparr>Analysis := DeadPrimary\<rparr>])) p"
  using assms(2,3) count_after_round[OF assms(1), of env "AnalyzedKeyspace p" "AnalyzedShard p" ks' sh']
  by (auto simp: allOthersDown_def split: option.splits if_splits)

lemma invalid_after_round:
  assumes "p \<in> set (filter (\<lambda>r. \<not> notReplicating env ks' sh' r) (result[i := (result ! i)\<lparr>Analysis := DeadPrimary\<rparr>]))"
    and "Analysis p = InvalidPrimary"
  shows "p \<in> set result"
proof -
  from assms(1) have "p \<in> set (result[i := (result ! i)\<lparr>Analysis := DeadPrimary\<rparr>])" by simp
  from set_update_cases[OF this] assms(2) show ?thesis by auto
qed

text \<open>A shard none of whose invalid primaries qualifies keeps its results as they are.\<close>

lemma shard_unchanged:
  assumes "postProcessAnalyses env result clusters = Inr out"
    and "\<forall>p\<in>set result. Analysis p = InvalidPrimary \<and> inShard ks sh p \<longrightarrow> \<not> allOthersDown env clusters result p"
  shows "filter (inShard ks sh) out = filter (inShard ks sh) result"
proof -
  have "(\<forall>p\<in>set result. Analysis p = InvalidPrimary \<and> inShard ks sh p \<longrightarrow> \<not> allOthersDown env clusters result p)
        \<longrightarrow> filter (inShard ks sh) out = filter (inShard ks sh) result"
  proof (rule postProcessAnalyses_rounds[OF assms(1)])
    show "(\<forall>p\<in>set out. Analysis p = InvalidPrimary \<and> inShard ks sh p \<longrightarrow> \<not> allOthersDown env clusters out p)
        \<longrightarrow> filter (inShard ks sh) out = filter (inShard ks sh) out"
      by simp
  next
    fix result :: "ReplicationAnalysis list" and i :: nat
    let ?r = "result ! i"
    let ?ks' = "AnalyzedKeyspace ?r" and ?sh' = "AnalyzedShard ?r"
    let ?upd = "result[i := ?r\<lparr>Analysis := DeadPrimary\<rparr>]"
    let ?res' = "filter (\<lambda>r. \<not> notReplicating env ?ks' ?sh' r) ?upd"
    assume i: "i < length result" and ip: "Analysis ?r = InvalidPrimary"
      and q: "allOthersDown env clusters result ?r"
      and IH: "(\<forall>p\<in>set ?res'. Analysis p = InvalidPrimary \<and> inShard ks sh p \<longrightarrow> \<not> allOthersDown env clusters ?res' p)
        \<longrightarrow> filter (inShard ks sh) out = filter (inShard ks sh) ?res'"
    show "(\<forall>p\<in>set result. Analysis p = InvalidPrimary \<and> inShard ks sh p \<longrightarrow> \<not> allOthersDown env clusters result p)
        \<longrightarrow> filter (inShard ks sh) out = filter (inShard ks sh) result"
    proof
      assume H: "\<forall>p\<in>set result. Analysis p = InvalidPrimary \<and> inShard ks sh p \<longrightarrow> \<not> allOthersDown env clusters result p"
      from H i ip q have other: "\<not> inShard ks sh ?r" by (meson nth_mem)
      have H': "\<forall>p\<in>set ?res'. Analysis p = InvalidPrimary \<and> inShard ks sh p \<longrightarrow> \<not> allOthersDown env clusters ?res' p"
      proof (intro ballI impI)
        fix p assume p: "p \<in> set ?res'" and pp: "Analysis p = InvalidPrimary \<and> inShard ks sh p"
        from invalid_after_round[OF p] pp have "p \<in> set result" by simp
        with H pp have "\<not> allOthersDown env clusters result p" by blast
        with allOthersDown_after_round[OF i, of env clusters ?ks' ?sh' p]
        show "\<not> allOthersDown env clusters ?res' p" by blast
      qed
      have keep: "inShard ks sh x \<Longrightarrow> \<not> notReplicating env ?ks' ?sh' x" for x
        using other by (auto simp: inShard_def notReplicating_def)
      have "filter (inShard ks sh) ?res' = filter (inShard ks sh) ?upd"
        using keep by (auto simp: filter_filter intro: filter_cong)
      also have "\<dots> = filter (inShard ks sh) result"
      proof -
        have "\<not> inShard ks sh (?r\<lparr>Analysis := DeadPrimary\<rparr>)" using other by (simp add: inShard_def)
        with other i show ?thesis by (simp add: filter_update_outside)
      qed
      finally show "filter (inShard ks sh) out = filter (inShard ks sh) result"
        using IH H' by simp
    qed
  qed
  with assms(2) show ?thesis by blast
qed

lemma others_kept:
  assumes "postProcessAnalyses env result clusters = Inr out"
    and "q \<in> set result" and "Analysis q \<noteq> InvalidPrimary"
    and "\<forall>p\<in>set result. Analysis p = InvalidPrimary \<and> allOthersDown env clusters result p
           \<longrightarrow> \<not> notReplicating env (AnalyzedKeyspace p) (AnalyzedShard p) q"
  shows "q \<in> set out"
proof -
  have "q \<in> set result
        \<and> (\<forall>p\<in>set result. Analysis p = InvalidPrimary \<and> allOthersDown env clusters result p
              \<longrightarrow> \<not> notReplicating env (AnalyzedKeyspace p) (AnalyzedShard p) q)
        \<longrightarrow> q \<in> set out"
  proof (rule postProcessAnalyses_rounds[OF assms(1)])
    show "q \<in> set out
        \<and> (\<forall>p\<in>set out. Analysis p = InvalidPrimary \<and> allOthersDown env clusters out p
              \<longrightarrow> \<not> notReplicating env (AnalyzedKeyspace p) (AnalyzedShard p) q)
        \<longrightarrow> q \<in> set out"
      by simp
  next
    fix result :: "ReplicationAnalysis list" and i :: nat
    let ?r = "result ! i"
    let ?ks' = "AnalyzedKeyspace ?r" and ?sh' = "AnalyzedShard ?r"
    let ?upd = "result[i := ?r\<lparr>Analysis := DeadPrimary\<rparr>]"
    let ?res' = "filter (\<lambda>r. \<not> notReplicating env ?ks' ?sh' r) ?upd"
    assume i: "i < length result" and ip: "Analysis ?r = InvalidPrimary"
      and qual: "allOthersDown env clusters result ?r"
      and IH: "q \<in> set ?res'
        \<and> (\<forall>p\<in>set ?res'. Analysis p = InvalidPrimary \<and> allOthersDown env clusters ?res' p
              \<longrightarrow> \<not> notReplicating env (AnalyzedKeyspace p) (AnalyzedShard p) q)
        \<longrightarrow> q \<in> set out"
    show "q \<in> set result
        \<and> (\<forall>p\<in>set result. Analysis p = InvalidPrimary \<and> allOthersDown env clusters result p
              \<longrightarrow> \<not> notReplicating env (AnalyzedKeyspace p) (AnalyzedShard p) q)
        \<longrightarrow> q \<in> set out"
    proof
      assume A: "q \<in> set result
        \<and> (\<forall>p\<in>set result. Analysis p = InvalidPrimary \<and> allOthersDown env clusters result p
              \<longrightarrow> \<not> notReplicating env (AnalyzedKeyspace p) (AnalyzedShard p) q)"
      from A i ip qual have nr: "\<not> notReplicating env ?ks' ?sh' q" by (meson nth_mem)
      from assms(3) ip have "q \<noteq> ?r" by auto
      with A i have "q \<in> set ?upd" by (simp add: in_set_update_other)
      with nr have 1: "q \<in> set ?res'" by simp
      have 2: "\<forall>p\<in>set ?res'. Analysis p = InvalidPrimary \<and> allOthersDown env clusters ?res' p
              \<longrightarrow> \<not> notReplicating env (AnalyzedKeyspace p) (AnalyzedShard p) q"
      proof (intro ballI impI)
        fix p assume p: "p \<in> set ?res'"
          and pp: "Analysis p = InvalidPrimary \<and> allOthersDown env clusters ?res' p"
        from invalid_after_round[OF p] pp have "p \<in> set result" by simp
        moreover from allOthersDown_after_round[OF i, of env clusters ?ks' ?sh' p] pp
        have "allOthersDown env clusters result p" by simp
        ultimately show "\<not> notReplicating env (AnalyzedKeyspace p) (AnalyzedShard p) q"
          using A pp by blast
      qed
      from IH 1 2 show "q \<in> set out" by blast
    qed
  qed
  with assms(2,4) show ?thesis by blast
qed

lemmas two_shard_defs = invalidPrimaryOfShard1_def stoppedReplicaOfShard1_def twoShards_def
  twoShardResults_def inShard_def

lemma example_reconcile_two_shards:
  "postProcessAnalyses exampleEnv twoShardResults twoShards
     = Inr [invalidPrimaryAnalysis\<lparr>Analysis := DeadPrimary\<rparr>, invalidPrimaryOfShard1, stoppedReplicaOfShard1]"
  by (simp add: postProcessAnalyses.simps reconcile_defs two_shard_defs Let_def)

text \<open>
  C3, as amended. When the reconciliation returns: an invalid primary of the results that is
  not itself of a replica type and is the only invalid primary of its keyspace and shard,
  whose shard has more than one tablet and as many not-replicating replica results as it
  has other tablets, is in the output with the code \<open>DeadPrimary\<close>, and no such replica
  result of its shard is left in the output. The results of a shard none of whose invalid
  primaries meets that condition (one replica of the shard is healthy, or the shard has no
  other tablet) are in the output unchanged and in their order, whatever happens to the
  other shards; a result that is not an invalid primary and is not a not-replicating
  replica result of the shard of an invalid primary that meets the condition stays in the
  output; and when no invalid primary of the results meets the condition, the output is
  the results unchanged.
\<close>

theorem reconciler_upgrade:
  assumes "postProcessAnalyses env result clusters = Inr out"
  shows "(\<forall>p\<in>set result.
            Analysis p = InvalidPrimary \<and> allOthersDown env clusters result p
            \<and> \<not> IsReplicaType env (TabletType p)
            \<and> (\<forall>q\<in>set result. Analysis q = InvalidPrimary \<and> AnalyzedKeyspace q = AnalyzedKeyspace p
                  \<and> AnalyzedShard q = AnalyzedShard p \<longrightarrow> q = p)
            \<longrightarrow> p\<lparr>Analysis := DeadPrimary\<rparr> \<in> set out
                \<and> (\<forall>q\<in>set out. \<not> notReplicating env (AnalyzedKeyspace p) (AnalyzedShard p) q))
       \<and> (\<forall>ks sh.
            (\<forall>p\<in>set result. Analysis p = InvalidPrimary \<and> inShard ks sh p
                \<longrightarrow> \<not> allOthersDown env clusters result p)
            \<longrightarrow> filter (inShard ks sh) out = filter (inShard ks sh) result)
       \<and> (\<forall>q\<in>set result.
            Analysis q \<noteq> InvalidPrimary
            \<and> (\<forall>p\<in>set result. Analysis p = InvalidPrimary \<and> allOthersDown env clusters result p
                  \<longrightarrow> \<not> notReplicating env (AnalyzedKeyspace p) (AnalyzedShard p) q)
            \<longrightarrow> q \<in> set out)
       \<and> ((\<forall>p\<in>set result. Analysis p = InvalidPrimary \<longrightarrow> \<not> allOthersDown env clusters result p)
            \<longrightarrow> out = result)"
proof (intro conjI ballI impI allI)
  fix p assume "p \<in> set result" and h: "Analysis p = InvalidPrimary \<and> allOthersDown env clusters result p
            \<and> \<not> IsReplicaType env (TabletType p)
            \<and> (\<forall>q\<in>set result. Analysis q = InvalidPrimary \<and> AnalyzedKeyspace q = AnalyzedKeyspace p
                  \<and> AnalyzedShard q = AnalyzedShard p \<longrightarrow> q = p)"
  then have inv: "(p \<in> set result \<and> allOthersDown env clusters result p
          \<and> (\<forall>q\<in>set result. Analysis q = InvalidPrimary \<and> AnalyzedKeyspace q = AnalyzedKeyspace p
                \<and> AnalyzedShard q = AnalyzedShard p \<longrightarrow> q = p))
       \<or> (p\<lparr>Analysis := DeadPrimary\<rparr> \<in> set result
          \<and> (\<forall>q\<in>set result. \<not> notReplicating env (AnalyzedKeyspace p) (AnalyzedShard p) q))"
    by blast
  from h have a: "Analysis p = InvalidPrimary" and b: "\<not> IsReplicaType env (TabletType p)" by auto
  from upgrade_invariant[OF assms a b inv]
  show "p\<lparr>Analysis := DeadPrimary\<rparr> \<in> set out"
    and "\<And>q. q \<in> set out \<Longrightarrow> \<not> notReplicating env (AnalyzedKeyspace p) (AnalyzedShard p) q"
    by auto
next
  fix ks sh
  assume "\<forall>p\<in>set result. Analysis p = InvalidPrimary \<and> inShard ks sh p
                \<longrightarrow> \<not> allOthersDown env clusters result p"
  from shard_unchanged[OF assms this]
  show "filter (inShard ks sh) out = filter (inShard ks sh) result" .
next
  fix q assume "q \<in> set result"
    and "Analysis q \<noteq> InvalidPrimary
            \<and> (\<forall>p\<in>set result. Analysis p = InvalidPrimary \<and> allOthersDown env clusters result p
                  \<longrightarrow> \<not> notReplicating env (AnalyzedKeyspace p) (AnalyzedShard p) q)"
  with others_kept[OF assms, of q] show "q \<in> set out" by blast
next
  assume none: "\<forall>p\<in>set result. Analysis p = InvalidPrimary \<longrightarrow> \<not> allOthersDown env clusters result p"
  show "out = result"
  proof (cases "findDeadPrimary env clusters result 0 result")
    case (Inl e)
    with assms show ?thesis by (simp add: postProcessAnalyses.simps[of env result])
  next
    case (Inr found)
    show ?thesis
    proof (cases found)
      case None
      with Inr assms show ?thesis by (simp add: postProcessAnalyses.simps[of env result])
    next
      case (Some pr)
      obtain i idxs where "pr = (i, idxs)" by (cases pr)
      with Inr Some have f: "findDeadPrimary env clusters result 0 result = Inr (Some (i, idxs))" by simp
      from findDeadPrimary_Some'[OF f] none have False by (meson nth_mem)
      then show ?thesis ..
    qed
  qed
qed

theorem reconciler_upgrade_witness:
  "postProcessAnalyses exampleEnv [invalidPrimaryAnalysis, stoppedReplicaAnalysis] (shardOfSize 2)
     = Inr [invalidPrimaryAnalysis\<lparr>Analysis := DeadPrimary\<rparr>]
   \<and> Analysis invalidPrimaryAnalysis = InvalidPrimary
   \<and> allOthersDown exampleEnv (shardOfSize 2) [invalidPrimaryAnalysis, stoppedReplicaAnalysis] invalidPrimaryAnalysis
   \<and> \<not> IsReplicaType exampleEnv (TabletType invalidPrimaryAnalysis)
   \<and> notReplicating exampleEnv ''ks'' ''0'' stoppedReplicaAnalysis
   \<and> \<not> notReplicating exampleEnv ''ks'' ''0'' (invalidPrimaryAnalysis\<lparr>Analysis := DeadPrimary\<rparr>)
   \<and> \<not> allOthersDown exampleEnv (shardOfSize 3) [invalidPrimaryAnalysis, stoppedReplicaAnalysis] invalidPrimaryAnalysis
   \<and> postProcessAnalyses exampleEnv [invalidPrimaryAnalysis, stoppedReplicaAnalysis] (shardOfSize 3)
     = Inr [invalidPrimaryAnalysis, stoppedReplicaAnalysis]
   \<and> postProcessAnalyses exampleEnv twoShardResults twoShards
     = Inr [invalidPrimaryAnalysis\<lparr>Analysis := DeadPrimary\<rparr>, invalidPrimaryOfShard1, stoppedReplicaOfShard1]
   \<and> allOthersDown exampleEnv twoShards twoShardResults invalidPrimaryAnalysis
   \<and> Analysis invalidPrimaryOfShard1 = InvalidPrimary
   \<and> inShard ''ks'' ''1'' invalidPrimaryOfShard1
   \<and> \<not> allOthersDown exampleEnv twoShards twoShardResults invalidPrimaryOfShard1
   \<and> filter (inShard ''ks'' ''1'') twoShardResults = [invalidPrimaryOfShard1, stoppedReplicaOfShard1]
   \<and> filter (inShard ''ks'' ''1'')
        [invalidPrimaryAnalysis\<lparr>Analysis := DeadPrimary\<rparr>, invalidPrimaryOfShard1, stoppedReplicaOfShard1]
       = [invalidPrimaryOfShard1, stoppedReplicaOfShard1]
   \<and> Analysis stoppedReplicaOfShard1 \<noteq> InvalidPrimary
   \<and> \<not> notReplicating exampleEnv ''ks'' ''0'' stoppedReplicaOfShard1
   \<and> stoppedReplicaOfShard1
       \<in> set [invalidPrimaryAnalysis\<lparr>Analysis := DeadPrimary\<rparr>, invalidPrimaryOfShard1, stoppedReplicaOfShard1]"
  using reconciler_upgrade[OF example_reconcile] reconciler_upgrade[OF example_reconcile_healthy]
    reconciler_upgrade[OF example_reconcile_two_shards]
    example_reconcile example_reconcile_healthy example_reconcile_two_shards
  by (simp add: reconcile_defs two_shard_defs)

text \<open>
  The condition of C3 as the claim states it does not suffice: a shard of one tablet has
  zero not-replicating replica results, which is its tablet count minus one, and its
  invalid primary stays invalid (the guard \<^verbatim>\<open>totalReplicas > 0\<close>).
\<close>

theorem reconciler_upgrade_counterexample:
  "Analysis invalidPrimaryAnalysis = InvalidPrimary
   \<and> shardOfSize 1 (getKeyspaceShardName exampleEnv ''ks'' ''0'')
       = Some \<lparr>hasShardWideAction = False, totalTablets = 1, primaryAlias = ''zone1'', durability = Some 0\<rparr>
   \<and> int (length (filter (notReplicating exampleEnv ''ks'' ''0'') [invalidPrimaryAnalysis])) = 1 - 1
   \<and> postProcessAnalyses exampleEnv [invalidPrimaryAnalysis] (shardOfSize 1) = Inr [invalidPrimaryAnalysis]"
  by (simp add: postProcessAnalyses.simps reconcile_defs Let_def)

subsection \<open>The reconciliation returns\<close>

text \<open>
  The reconciliation returns whenever every invalid primary of the results has an aggregate
  for its shard, and the results of a scan always have one: the pass never takes the nil
  pointer.
\<close>

lemma findDeadPrimary_not_panic:
  "\<forall>p\<in>set rest. Analysis p = InvalidPrimary \<longrightarrow>
      clusters (getKeyspaceShardName env (AnalyzedKeyspace p) (AnalyzedShard p)) \<noteq> None \<Longrightarrow>
   findDeadPrimary env clusters result i rest \<noteq> Inl e"
  by (induction rest arbitrary: i) (auto simp: Let_def split: option.splits)

lemma postProcessAnalyses_returns:
  "\<forall>p\<in>set result. Analysis p = InvalidPrimary \<longrightarrow>
      clusters (getKeyspaceShardName env (AnalyzedKeyspace p) (AnalyzedShard p)) \<noteq> None \<Longrightarrow>
   \<exists>out. postProcessAnalyses env result clusters = Inr out"
proof (induction env result clusters rule: postProcessAnalyses.induct)
  case (1 env result clusters)
  show ?case
  proof (cases "findDeadPrimary env clusters result 0 result")
    case (Inl e)
    with findDeadPrimary_not_panic[OF "1.prems", of result 0 e] show ?thesis by simp
  next
    case (Inr found)
    show ?thesis
    proof (cases found)
      case None
      with Inr show ?thesis by (simp add: postProcessAnalyses.simps[of env result])
    next
      case (Some pr)
      obtain i idxs where pr: "pr = (i, idxs)" by (cases pr)
      from Inr Some pr have f: "findDeadPrimary env clusters result 0 result = Inr (Some (i, idxs))" by simp
      let ?upd = "result[i := (result ! i)\<lparr>Analysis := DeadPrimary\<rparr>]"
      have res': "removeIndexes (rev idxs) ?upd
          = filter (\<lambda>r. \<not> notReplicating env (AnalyzedKeyspace (result ! i)) (AnalyzedShard (result ! i)) r) ?upd"
        unfolding findDeadPrimary_Some'(4)[OF f] by (rule reconcile_step)
      have "\<forall>p\<in>set (removeIndexes (rev idxs) ?upd). Analysis p = InvalidPrimary \<longrightarrow>
          clusters (getKeyspaceShardName env (AnalyzedKeyspace p) (AnalyzedShard p)) \<noteq> None"
      proof (intro ballI impI)
        fix p assume "p \<in> set (removeIndexes (rev idxs) ?upd)" and ip: "Analysis p = InvalidPrimary"
        then have "p \<in> set ?upd" unfolding res' by simp
        from set_update_cases[OF this] ip have "p \<in> set result" by auto
        with "1.prems" ip show "clusters (getKeyspaceShardName env (AnalyzedKeyspace p) (AnalyzedShard p)) \<noteq> None"
          by blast
      qed
      from "1.IH"[OF Inr Some pr[symmetric] this] Inr Some pr show ?thesis
        by (simp add: postProcessAnalyses.simps[of env result])
    qed
  qed
qed

lemma classify_shard:
  "AnalyzedKeyspace (fst (classify env d pa tablet primaryTablet isInv stale a)) = AnalyzedKeyspace a"
  "AnalyzedShard (fst (classify env d pa tablet primaryTablet isInv stale a)) = AnalyzedShard a"
  by (auto simp: classify_def split: option.splits)

lemma structureAnalysis_shard:
  "AnalyzedKeyspace (structureAnalysis a) = AnalyzedKeyspace a"
  "AnalyzedShard (structureAnalysis a) = AnalyzedShard a"
  by (simp_all add: structureAnalysis_def)

lemma analyse_shard:
  "analyse env cl k ca m t pt a = (cl', out) \<Longrightarrow>
   AnalyzedKeyspace (outcomeAnalysis out) = AnalyzedKeyspace a
   \<and> AnalyzedShard (outcomeAnalysis out) = AnalyzedShard a"
  by (auto simp: analyse_def Let_def classify_shard structureAnalysis_shard
           split: if_splits option.splits prod.splits dest!: arg_cong[where f=fst])

lemma aggregate_shard:
  "aggregate env cl m t pt a = (cl', out) \<Longrightarrow>
   AnalyzedKeyspace (outcomeAnalysis out) = AnalyzedKeyspace a
   \<and> AnalyzedShard (outcomeAnalysis out) = AnalyzedShard a"
  by (auto simp: aggregate_def Let_def split: if_splits option.splits dest!: analyse_shard)

lemma processRow_Classified_key:
  assumes "processRow env cl m = (cl', Classified a)"
  shows "cl' (getKeyspaceShardName env (AnalyzedKeyspace a) (AnalyzedShard a)) \<noteq> None"
proof (cases "aggregated env m")
  case False
  from processRow_not_aggregated[OF False assms] show ?thesis by simp
next
  case True
  from processRow_aggregated[OF True, of cl] assms obtain t pt a0 where
    ag: "aggregate env cl m t pt a0 = (cl', Classified a)"
    and a0: "AnalyzedKeyspace a0 = keyspace m" "AnalyzedShard a0 = shard m"
    by auto
  from aggregate_shard[OF ag] a0 have "AnalyzedKeyspace a = keyspace m" "AnalyzedShard a = shard m"
    by simp_all
  with processRow_effect[OF assms] True show ?thesis by (auto simp: rowKey_def)
qed

lemma processRow_keeps_keys:
  "processRow env cl m = (cl', out) \<Longrightarrow> cl k \<noteq> None \<Longrightarrow> cl' k \<noteq> None"
  using processRow_effect[of env cl m cl' out] by (auto split: if_splits)

lemma scanRows_keys:
  "\<forall>p\<in>set res. cl (getKeyspaceShardName env (AnalyzedKeyspace p) (AnalyzedShard p)) \<noteq> None \<Longrightarrow>
   scanRows env cl res ms = (cl', res') \<Longrightarrow>
   \<forall>p\<in>set res'. cl' (getKeyspaceShardName env (AnalyzedKeyspace p) (AnalyzedShard p)) \<noteq> None"
proof (induction ms arbitrary: cl res)
  case Nil
  then show ?case by simp
next
  case (Cons m ms)
  obtain cl1 out where p: "processRow env cl m = (cl1, out)" by (cases "processRow env cl m")
  have "\<forall>p\<in>set (record_outcome res out).
          cl1 (getKeyspaceShardName env (AnalyzedKeyspace p) (AnalyzedShard p)) \<noteq> None"
  proof
    fix q assume q: "q \<in> set (record_outcome res out)"
    show "cl1 (getKeyspaceShardName env (AnalyzedKeyspace q) (AnalyzedShard q)) \<noteq> None"
    proof (cases "q \<in> set res")
      case True
      with Cons.prems(1) processRow_keeps_keys[OF p] show ?thesis by blast
    next
      case False
      with q have "out = Classified q"
        by (cases out) (auto simp: record_outcome_def appendAnalysis_def split: if_splits)
      with processRow_Classified_key[of env cl m cl1 q] p show ?thesis by simp
    qed
  qed
  from Cons.IH[OF this] Cons.prems(2) p show ?case by simp
qed

lemma GetReplicationAnalysis_returns:
  "\<exists>result. GetReplicationAnalysis env rows err = Inr (result, err)"
proof -
  obtain cl res where s: "scanRows env Map.empty [] rows = (cl, res)"
    by (cases "scanRows env Map.empty [] rows")
  from scanRows_keys[OF _ s] have
    "\<forall>p\<in>set res. cl (getKeyspaceShardName env (AnalyzedKeyspace p) (AnalyzedShard p)) \<noteq> None"
    by simp
  then have "\<forall>p\<in>set res. Analysis p = InvalidPrimary \<longrightarrow>
      cl (getKeyspaceShardName env (AnalyzedKeyspace p) (AnalyzedShard p)) \<noteq> None" by blast
  from postProcessAnalyses_returns[OF this] s show ?thesis
    by (auto simp: GetReplicationAnalysis_def)
qed

section \<open>Properties of the audit\<close>

lemmas audit_defs = auditInstanceAnalysisInChangelog_def updateLastAnalysis_def
  insertIgnoreLastAnalysis_def insertChangelog_def cacheSet_def Let_def

lemmas audit_eval = audit_defs noFaults_def emptyAuditState_def changelogOf_def sameCodeEvents_def

lemma auditRun_append: "auditRun (xs @ ys) st = auditRun ys (auditRun xs st)"
  by (induction xs arbitrary: st) auto

lemma audit_other_alias:
  assumes "al' \<noteq> al"
  shows "database_instance_last_analysis (fst (auditInstanceAnalysisInChangelog f al' c st)) al
           = database_instance_last_analysis st al
       \<and> changelogOf al (fst (auditInstanceAnalysisInChangelog f al' c st)) = changelogOf al st"
  using assms
  by (auto simp: audit_defs changelogOf_def split: if_splits option.splits sum.splits prod.splits)

definition atMostOnce :: "string \<Rightarrow> AnalysisCode \<Rightarrow> AnalysisCode list \<Rightarrow> auditState \<Rightarrow> bool" where
  "atMostOnce al X c0 st =
     (if database_instance_last_analysis st al = Some X
      then changelogOf al st = c0 \<or> changelogOf al st = c0 @ [X]
      else changelogOf al st = c0)"

lemma audit_same_alias:
  assumes "atMostOnce al X c0 st"
  shows "atMostOnce al X c0 (fst (auditInstanceAnalysisInChangelog f al X st))"
  using assms
  by (auto simp: audit_defs changelogOf_def atMostOnce_def
           split: if_splits option.splits sum.splits prod.splits)

lemma auditStep_atMostOnce:
  assumes "auditsOnly al X e" "atMostOnce al X c0 st"
  shows "atMostOnce al X c0 (auditStep e st)"
proof (cases e)
  case (Audit f al' c)
  show ?thesis
  proof (cases "al' = al")
    case True
    with Audit assms show ?thesis by (simp add: audit_same_alias)
  next
    case False
    from audit_other_alias[OF False, of f c st] assms(2) Audit show ?thesis
      by (simp add: atMostOnce_def)
  qed
next
  case (Expire al')
  with assms(2) show ?thesis by (auto simp: atMostOnce_def changelogOf_def split: if_splits)
qed

lemma auditRun_atMostOnce:
  "list_all (auditsOnly al X) evs \<Longrightarrow> atMostOnce al X c0 st \<Longrightarrow> atMostOnce al X c0 (auditRun evs st)"
  by (induction evs arbitrary: st) (auto simp: auditStep_atMostOnce)

lemma expire_run:
  "list_all isExpire es \<Longrightarrow>
   database_instance_last_analysis (auditRun es st) = database_instance_last_analysis st
   \<and> database_instance_analysis_changelog (auditRun es st) = database_instance_analysis_changelog st
   \<and> (recentInstantAnalysis (auditRun es st) al = recentInstantAnalysis st al
       \<or> recentInstantAnalysis (auditRun es st) al = None)"
proof (induction es arbitrary: st)
  case Nil
  then show ?case by simp
next
  case (Cons e es)
  then obtain al' where e: "e = Expire al'" by (cases e) auto
  from Cons.IH[of "auditStep e st"] Cons.prems e show ?case by (auto split: if_splits)
qed

lemma first_audit:
  assumes "recentInstantAnalysis st al \<noteq> Some X" "database_instance_last_analysis st al \<noteq> Some X"
  shows "database_instance_analysis_changelog (fst (auditInstanceAnalysisInChangelog noFaults al X st))
           = database_instance_analysis_changelog st @ [(al, X)]
       \<and> database_instance_last_analysis (fst (auditInstanceAnalysisInChangelog noFaults al X st)) al = Some X
       \<and> recentInstantAnalysis (fst (auditInstanceAnalysisInChangelog noFaults al X st)) al = Some X
       \<and> snd (auditInstanceAnalysisInChangelog noFaults al X st) = None"
  using assms
  by (auto simp: audit_defs noFaults_def split: if_splits option.splits sum.splits prod.splits)

text \<open>
  C4. Calls of the audit for one alias that all carry the code \<open>X\<close>, in sequence, with cache
  entries timing out and calls for other aliases in between, whatever the store's faults
  and the state they start from (the empty one included), leave at most one more changelog
  row for the alias, a row of code \<open>X\<close>. From a state where neither the cache nor the
  last-analysis table holds \<open>X\<close> for the alias, a call with \<open>X\<close> followed by a call with a
  different code \<open>Y\<close>, the store not failing, appends exactly the row of \<open>X\<close> and then the
  row of \<open>Y\<close>.
\<close>

theorem audit_once_per_change:
  "(list_all (auditsOnly tabletAlias X) evs \<longrightarrow>
      changelogOf tabletAlias (auditRun evs st) = changelogOf tabletAlias st
      \<or> changelogOf tabletAlias (auditRun evs st) = changelogOf tabletAlias st @ [X])
   \<and> (recentInstantAnalysis st tabletAlias \<noteq> Some X
       \<and> database_instance_last_analysis st tabletAlias \<noteq> Some X
       \<and> X \<noteq> Y \<and> list_all isExpire es \<longrightarrow>
      database_instance_analysis_changelog
        (auditRun ([Audit noFaults tabletAlias X] @ es @ [Audit noFaults tabletAlias Y]) st)
      = database_instance_analysis_changelog st @ [(tabletAlias, X), (tabletAlias, Y)])"
proof (intro conjI impI)
  assume evs: "list_all (auditsOnly tabletAlias X) evs"
  have "atMostOnce tabletAlias X (changelogOf tabletAlias st) st"
    by (simp add: atMostOnce_def)
  from auditRun_atMostOnce[OF evs this]
  show "changelogOf tabletAlias (auditRun evs st) = changelogOf tabletAlias st
      \<or> changelogOf tabletAlias (auditRun evs st) = changelogOf tabletAlias st @ [X]"
    by (auto simp: atMostOnce_def split: if_splits)
next
  assume h: "recentInstantAnalysis st tabletAlias \<noteq> Some X
       \<and> database_instance_last_analysis st tabletAlias \<noteq> Some X
       \<and> X \<noteq> Y \<and> list_all isExpire es"
  let ?st1 = "fst (auditInstanceAnalysisInChangelog noFaults tabletAlias X st)"
  let ?st2 = "auditRun es ?st1"
  from h first_audit[of st tabletAlias X] have 1:
    "database_instance_analysis_changelog ?st1 = database_instance_analysis_changelog st @ [(tabletAlias, X)]"
    "database_instance_last_analysis ?st1 tabletAlias = Some X"
    "recentInstantAnalysis ?st1 tabletAlias = Some X"
    by auto
  from h expire_run[of es ?st1 tabletAlias] 1 have 2:
    "database_instance_analysis_changelog ?st2 = database_instance_analysis_changelog st @ [(tabletAlias, X)]"
    "database_instance_last_analysis ?st2 tabletAlias = Some X"
    "recentInstantAnalysis ?st2 tabletAlias \<noteq> Some Y"
    by auto
  from 2(2) h have "database_instance_last_analysis ?st2 tabletAlias \<noteq> Some Y" by auto
  from first_audit[OF 2(3) this] 2(1)
  show "database_instance_analysis_changelog
        (auditRun ([Audit noFaults tabletAlias X] @ es @ [Audit noFaults tabletAlias Y]) st)
      = database_instance_analysis_changelog st @ [(tabletAlias, X), (tabletAlias, Y)]"
    by (simp add: auditRun_append)
qed

theorem audit_once_per_change_witness:
  "list_all (auditsOnly ''zone1'' DeadPrimary) sameCodeEvents
   \<and> changelogOf ''zone1'' emptyAuditState = []
   \<and> changelogOf ''zone1'' (auditRun sameCodeEvents emptyAuditState) = [DeadPrimary]
   \<and> recentInstantAnalysis emptyAuditState ''zone1'' \<noteq> Some DeadPrimary
   \<and> database_instance_last_analysis emptyAuditState ''zone1'' \<noteq> Some DeadPrimary
   \<and> DeadPrimary \<noteq> PrimaryIsReadOnly \<and> list_all isExpire [Expire ''zone1'']
   \<and> database_instance_analysis_changelog
        (auditRun ([Audit noFaults ''zone1'' DeadPrimary] @ [Expire ''zone1'']
                   @ [Audit noFaults ''zone1'' PrimaryIsReadOnly]) emptyAuditState)
       = [(''zone1'', DeadPrimary), (''zone1'', PrimaryIsReadOnly)]"
proof -
  have a: "list_all (auditsOnly ''zone1'' DeadPrimary) sameCodeEvents"
    by (simp add: sameCodeEvents_def)
  have b: "changelogOf ''zone1'' emptyAuditState = []"
    "changelogOf ''zone1'' (auditRun sameCodeEvents emptyAuditState) = [DeadPrimary]"
    by (simp_all add: audit_eval)
  have c: "recentInstantAnalysis emptyAuditState ''zone1'' \<noteq> Some DeadPrimary
       \<and> database_instance_last_analysis emptyAuditState ''zone1'' \<noteq> Some DeadPrimary
       \<and> DeadPrimary \<noteq> PrimaryIsReadOnly \<and> list_all isExpire [Expire ''zone1'']"
    by (simp add: emptyAuditState_def)
  from audit_once_per_change[of "''zone1''" DeadPrimary sameCodeEvents emptyAuditState
         PrimaryIsReadOnly "[Expire ''zone1'']"] a b c
  show ?thesis by (simp add: emptyAuditState_def)
qed

text \<open>
  C6, as amended. A store error at a statement the call executes is returned by the call.
  The conditional update is executed by every call that is not debounced (the cache has no
  entry of the alias with this code); the insert-if-absent when the update succeeded and
  changed no row (the last-analysis record is absent or holds the code); the changelog
  append when the two statements before it succeeded and one of them changed a row. The
  error of an execution leaves the state as it was at that statement; for the first two
  statements that is the state before the call. A call that returns an error, whichever,
  has appended no changelog row and has not moved the counter. When the error comes from
  the conditional update or from the insert-if-absent, the cache is as it was before the
  call and does not hold the code for the alias, so the next call with the same code is
  not debounced. When it comes from the changelog append, the last-analysis record and
  the cache already hold the code (the cache is set at line 715, before the append).
\<close>

theorem audit_store_error:
  "(recentInstantAnalysis st tabletAlias \<noteq> Some analysisCode \<and> onUpdate f = ExecFails
      \<longrightarrow> auditInstanceAnalysisInChangelog f tabletAlias analysisCode st
            = (st, Some UpdateLastAnalysisFailed))
   \<and> (recentInstantAnalysis st tabletAlias \<noteq> Some analysisCode \<and> onUpdate f = RowsAffectedFails
      \<longrightarrow> snd (auditInstanceAnalysisInChangelog f tabletAlias analysisCode st)
            = Some UpdateRowsAffectedFailed)
   \<and> (recentInstantAnalysis st tabletAlias \<noteq> Some analysisCode \<and> onUpdate f = NoFault
        \<and> database_instance_last_analysis st tabletAlias \<in> {None, Some analysisCode}
        \<and> onInsertIgnore f = ExecFails
      \<longrightarrow> auditInstanceAnalysisInChangelog f tabletAlias analysisCode st
            = (st, Some InsertLastAnalysisFailed))
   \<and> (recentInstantAnalysis st tabletAlias \<noteq> Some analysisCode \<and> onUpdate f = NoFault
        \<and> database_instance_last_analysis st tabletAlias \<in> {None, Some analysisCode}
        \<and> onInsertIgnore f = RowsAffectedFails
      \<longrightarrow> snd (auditInstanceAnalysisInChangelog f tabletAlias analysisCode st)
            = Some InsertRowsAffectedFailed)
   \<and> (recentInstantAnalysis st tabletAlias \<noteq> Some analysisCode \<and> onUpdate f = NoFault
        \<and> database_instance_last_analysis st tabletAlias \<noteq> Some analysisCode
        \<and> (database_instance_last_analysis st tabletAlias = None \<longrightarrow> onInsertIgnore f = NoFault)
        \<and> onChangelog f = ExecFails
      \<longrightarrow> snd (auditInstanceAnalysisInChangelog f tabletAlias analysisCode st)
            = Some InsertChangelogFailed)
   \<and> (\<forall>st' err. auditInstanceAnalysisInChangelog f tabletAlias analysisCode st = (st', Some err) \<longrightarrow>
         database_instance_analysis_changelog st' = database_instance_analysis_changelog st
         \<and> analysisChangeWriteCounter st' = analysisChangeWriteCounter st
         \<and> (err \<noteq> InsertChangelogFailed \<longrightarrow>
              recentInstantAnalysis st' = recentInstantAnalysis st
              \<and> recentInstantAnalysis st' tabletAlias \<noteq> Some analysisCode)
         \<and> (err = InsertChangelogFailed \<longrightarrow>
              recentInstantAnalysis st' = (recentInstantAnalysis st)(tabletAlias \<mapsto> analysisCode)
              \<and> database_instance_last_analysis st' tabletAlias = Some analysisCode))"
proof (intro conjI impI allI)
  assume "recentInstantAnalysis st tabletAlias \<noteq> Some analysisCode \<and> onUpdate f = ExecFails"
  then show "auditInstanceAnalysisInChangelog f tabletAlias analysisCode st
            = (st, Some UpdateLastAnalysisFailed)"
    by (simp add: audit_defs)
next
  assume "recentInstantAnalysis st tabletAlias \<noteq> Some analysisCode \<and> onUpdate f = RowsAffectedFails"
  then show "snd (auditInstanceAnalysisInChangelog f tabletAlias analysisCode st)
            = Some UpdateRowsAffectedFailed"
    by (simp add: audit_defs)
next
  assume "recentInstantAnalysis st tabletAlias \<noteq> Some analysisCode \<and> onUpdate f = NoFault
        \<and> database_instance_last_analysis st tabletAlias \<in> {None, Some analysisCode}
        \<and> onInsertIgnore f = ExecFails"
  then show "auditInstanceAnalysisInChangelog f tabletAlias analysisCode st
            = (st, Some InsertLastAnalysisFailed)"
    by (auto simp: audit_defs)
next
  assume "recentInstantAnalysis st tabletAlias \<noteq> Some analysisCode \<and> onUpdate f = NoFault
        \<and> database_instance_last_analysis st tabletAlias \<in> {None, Some analysisCode}
        \<and> onInsertIgnore f = RowsAffectedFails"
  then show "snd (auditInstanceAnalysisInChangelog f tabletAlias analysisCode st)
            = Some InsertRowsAffectedFailed"
    by (auto simp: audit_defs)
next
  assume "recentInstantAnalysis st tabletAlias \<noteq> Some analysisCode \<and> onUpdate f = NoFault
        \<and> database_instance_last_analysis st tabletAlias \<noteq> Some analysisCode
        \<and> (database_instance_last_analysis st tabletAlias = None \<longrightarrow> onInsertIgnore f = NoFault)
        \<and> onChangelog f = ExecFails"
  then show "snd (auditInstanceAnalysisInChangelog f tabletAlias analysisCode st)
            = Some InsertChangelogFailed"
    by (cases "database_instance_last_analysis st tabletAlias") (auto simp: audit_defs)
next
  fix st' err
  assume a: "auditInstanceAnalysisInChangelog f tabletAlias analysisCode st = (st', Some err)"
  then show "database_instance_analysis_changelog st' = database_instance_analysis_changelog st"
    by (auto simp: audit_defs split: if_splits option.splits sum.splits prod.splits)
  from a show "analysisChangeWriteCounter st' = analysisChangeWriteCounter st"
    by (auto simp: audit_defs split: if_splits option.splits sum.splits prod.splits)
  {
    assume "err \<noteq> InsertChangelogFailed"
    with a show "recentInstantAnalysis st' = recentInstantAnalysis st"
      and "recentInstantAnalysis st' tabletAlias \<noteq> Some analysisCode"
      by (auto simp: audit_defs split: if_splits option.splits sum.splits prod.splits)
  }
  {
    assume "err = InsertChangelogFailed"
    with a show "recentInstantAnalysis st' = (recentInstantAnalysis st)(tabletAlias \<mapsto> analysisCode)"
      and "database_instance_last_analysis st' tabletAlias = Some analysisCode"
      by (auto simp: audit_defs split: if_splits option.splits sum.splits prod.splits)
  }
qed

theorem audit_store_error_witness:
  "recentInstantAnalysis auditedState ''zone1'' \<noteq> Some DeadPrimary
   \<and> onUpdate (noFaults\<lparr>onUpdate := ExecFails\<rparr>) = ExecFails
   \<and> auditInstanceAnalysisInChangelog (noFaults\<lparr>onUpdate := ExecFails\<rparr>) ''zone1'' DeadPrimary auditedState
       = (auditedState, Some UpdateLastAnalysisFailed)
   \<and> onUpdate (noFaults\<lparr>onUpdate := RowsAffectedFails\<rparr>) = RowsAffectedFails
   \<and> snd (auditInstanceAnalysisInChangelog (noFaults\<lparr>onUpdate := RowsAffectedFails\<rparr>) ''zone1''
            DeadPrimary auditedState) = Some UpdateRowsAffectedFailed
   \<and> recentInstantAnalysis emptyAuditState ''zone1'' \<noteq> Some DeadPrimary
   \<and> database_instance_last_analysis emptyAuditState ''zone1'' \<in> {None, Some DeadPrimary}
   \<and> onInsertIgnore (noFaults\<lparr>onInsertIgnore := ExecFails\<rparr>) = ExecFails
   \<and> auditInstanceAnalysisInChangelog (noFaults\<lparr>onInsertIgnore := ExecFails\<rparr>) ''zone1'' DeadPrimary
       emptyAuditState = (emptyAuditState, Some InsertLastAnalysisFailed)
   \<and> onInsertIgnore (noFaults\<lparr>onInsertIgnore := RowsAffectedFails\<rparr>) = RowsAffectedFails
   \<and> snd (auditInstanceAnalysisInChangelog (noFaults\<lparr>onInsertIgnore := RowsAffectedFails\<rparr>) ''zone1''
            DeadPrimary emptyAuditState) = Some InsertRowsAffectedFailed
   \<and> database_instance_last_analysis auditedState ''zone1'' \<noteq> Some DeadPrimary
   \<and> onChangelog (noFaults\<lparr>onChangelog := ExecFails\<rparr>) = ExecFails
   \<and> snd (auditInstanceAnalysisInChangelog (noFaults\<lparr>onChangelog := ExecFails\<rparr>) ''zone1'' DeadPrimary
            auditedState) = Some InsertChangelogFailed
   \<and> auditInstanceAnalysisInChangelog (noFaults\<lparr>onChangelog := ExecFails\<rparr>) ''zone1'' DeadPrimary
       emptyAuditState
       = (emptyAuditState\<lparr>recentInstantAnalysis := [''zone1'' \<mapsto> DeadPrimary],
                           database_instance_last_analysis := [''zone1'' \<mapsto> DeadPrimary]\<rparr>,
          Some InsertChangelogFailed)
   \<and> database_instance_analysis_changelog
        (emptyAuditState\<lparr>recentInstantAnalysis := [''zone1'' \<mapsto> DeadPrimary],
                           database_instance_last_analysis := [''zone1'' \<mapsto> DeadPrimary]\<rparr>) = []
   \<and> recentInstantAnalysis
        (emptyAuditState\<lparr>recentInstantAnalysis := [''zone1'' \<mapsto> DeadPrimary],
                           database_instance_last_analysis := [''zone1'' \<mapsto> DeadPrimary]\<rparr>) ''zone1''
       = Some DeadPrimary"
proof -
  have h1: "recentInstantAnalysis auditedState ''zone1'' \<noteq> Some DeadPrimary
            \<and> onUpdate (noFaults\<lparr>onUpdate := ExecFails\<rparr>) = ExecFails"
    by (simp add: auditedState_def emptyAuditState_def noFaults_def)
  have h2: "recentInstantAnalysis auditedState ''zone1'' \<noteq> Some DeadPrimary
            \<and> onUpdate (noFaults\<lparr>onUpdate := RowsAffectedFails\<rparr>) = RowsAffectedFails"
    by (simp add: auditedState_def emptyAuditState_def noFaults_def)
  have h3: "recentInstantAnalysis emptyAuditState ''zone1'' \<noteq> Some DeadPrimary
            \<and> onUpdate (noFaults\<lparr>onInsertIgnore := ExecFails\<rparr>) = NoFault
            \<and> database_instance_last_analysis emptyAuditState ''zone1'' \<in> {None, Some DeadPrimary}
            \<and> onInsertIgnore (noFaults\<lparr>onInsertIgnore := ExecFails\<rparr>) = ExecFails"
    by (simp add: emptyAuditState_def noFaults_def)
  have h4: "recentInstantAnalysis emptyAuditState ''zone1'' \<noteq> Some DeadPrimary
            \<and> onUpdate (noFaults\<lparr>onInsertIgnore := RowsAffectedFails\<rparr>) = NoFault
            \<and> database_instance_last_analysis emptyAuditState ''zone1'' \<in> {None, Some DeadPrimary}
            \<and> onInsertIgnore (noFaults\<lparr>onInsertIgnore := RowsAffectedFails\<rparr>) = RowsAffectedFails"
    by (simp add: emptyAuditState_def noFaults_def)
  have h5: "recentInstantAnalysis auditedState ''zone1'' \<noteq> Some DeadPrimary
            \<and> onUpdate (noFaults\<lparr>onChangelog := ExecFails\<rparr>) = NoFault
            \<and> database_instance_last_analysis auditedState ''zone1'' \<noteq> Some DeadPrimary
            \<and> (database_instance_last_analysis auditedState ''zone1'' = None
                 \<longrightarrow> onInsertIgnore (noFaults\<lparr>onChangelog := ExecFails\<rparr>) = NoFault)
            \<and> onChangelog (noFaults\<lparr>onChangelog := ExecFails\<rparr>) = ExecFails"
    by (simp add: auditedState_def emptyAuditState_def noFaults_def)
  have e6: "auditInstanceAnalysisInChangelog (noFaults\<lparr>onChangelog := ExecFails\<rparr>) ''zone1'' DeadPrimary
       emptyAuditState
       = (emptyAuditState\<lparr>recentInstantAnalysis := [''zone1'' \<mapsto> DeadPrimary],
                           database_instance_last_analysis := [''zone1'' \<mapsto> DeadPrimary]\<rparr>,
          Some InsertChangelogFailed)"
    by (simp add: audit_eval)
  from audit_store_error[of auditedState "''zone1''" DeadPrimary "noFaults\<lparr>onUpdate := ExecFails\<rparr>"] h1
  have c1: "auditInstanceAnalysisInChangelog (noFaults\<lparr>onUpdate := ExecFails\<rparr>) ''zone1'' DeadPrimary
              auditedState = (auditedState, Some UpdateLastAnalysisFailed)"
    by blast
  from audit_store_error[of auditedState "''zone1''" DeadPrimary "noFaults\<lparr>onUpdate := RowsAffectedFails\<rparr>"] h2
  have c2: "snd (auditInstanceAnalysisInChangelog (noFaults\<lparr>onUpdate := RowsAffectedFails\<rparr>) ''zone1''
            DeadPrimary auditedState) = Some UpdateRowsAffectedFailed"
    by blast
  from audit_store_error[of emptyAuditState "''zone1''" DeadPrimary "noFaults\<lparr>onInsertIgnore := ExecFails\<rparr>"] h3
  have c3: "auditInstanceAnalysisInChangelog (noFaults\<lparr>onInsertIgnore := ExecFails\<rparr>) ''zone1'' DeadPrimary
       emptyAuditState = (emptyAuditState, Some InsertLastAnalysisFailed)"
    by blast
  from audit_store_error[of emptyAuditState "''zone1''" DeadPrimary
         "noFaults\<lparr>onInsertIgnore := RowsAffectedFails\<rparr>"] h4
  have c4: "snd (auditInstanceAnalysisInChangelog (noFaults\<lparr>onInsertIgnore := RowsAffectedFails\<rparr>) ''zone1''
            DeadPrimary emptyAuditState) = Some InsertRowsAffectedFailed"
    by blast
  from audit_store_error[of auditedState "''zone1''" DeadPrimary "noFaults\<lparr>onChangelog := ExecFails\<rparr>"] h5
  have c5: "snd (auditInstanceAnalysisInChangelog (noFaults\<lparr>onChangelog := ExecFails\<rparr>) ''zone1'' DeadPrimary
            auditedState) = Some InsertChangelogFailed"
    by blast
  from audit_store_error[of emptyAuditState "''zone1''" DeadPrimary "noFaults\<lparr>onChangelog := ExecFails\<rparr>"] e6
  have c6: "database_instance_analysis_changelog
        (emptyAuditState\<lparr>recentInstantAnalysis := [''zone1'' \<mapsto> DeadPrimary],
                           database_instance_last_analysis := [''zone1'' \<mapsto> DeadPrimary]\<rparr>)
        = database_instance_analysis_changelog emptyAuditState
      \<and> recentInstantAnalysis
        (emptyAuditState\<lparr>recentInstantAnalysis := [''zone1'' \<mapsto> DeadPrimary],
                           database_instance_last_analysis := [''zone1'' \<mapsto> DeadPrimary]\<rparr>)
        = (recentInstantAnalysis emptyAuditState)(''zone1'' \<mapsto> DeadPrimary)"
    by blast
  have z: "database_instance_analysis_changelog emptyAuditState = []
           \<and> recentInstantAnalysis emptyAuditState = Map.empty"
    by (simp add: emptyAuditState_def)
  from h1 h2 h3 h4 h5 c1 c2 c3 c4 c5 c6 e6 z show ?thesis by simp
qed

text \<open>
  C6 as stated fails for the changelog append: the call returns the error with the cache
  already set, and the next call with the same code is debounced, so the changelog row is
  never written.
\<close>

theorem audit_store_error_counterexample:
  "snd (auditInstanceAnalysisInChangelog (noFaults\<lparr>onChangelog := ExecFails\<rparr>) ''zone1'' DeadPrimary
          emptyAuditState) = Some InsertChangelogFailed
   \<and> recentInstantAnalysis emptyAuditState ''zone1'' = None
   \<and> recentInstantAnalysis
        (fst (auditInstanceAnalysisInChangelog (noFaults\<lparr>onChangelog := ExecFails\<rparr>) ''zone1'' DeadPrimary
                emptyAuditState)) ''zone1'' = Some DeadPrimary
   \<and> auditInstanceAnalysisInChangelog noFaults ''zone1'' DeadPrimary
        (fst (auditInstanceAnalysisInChangelog (noFaults\<lparr>onChangelog := ExecFails\<rparr>) ''zone1'' DeadPrimary
                emptyAuditState))
       = (fst (auditInstanceAnalysisInChangelog (noFaults\<lparr>onChangelog := ExecFails\<rparr>) ''zone1'' DeadPrimary
                emptyAuditState), None)
   \<and> database_instance_analysis_changelog
        (auditRun [Audit (noFaults\<lparr>onChangelog := ExecFails\<rparr>) ''zone1'' DeadPrimary,
                   Audit noFaults ''zone1'' DeadPrimary] emptyAuditState) = []"
  by (simp add: audit_eval)

end
